theory Spec2Isabelle
  imports Main
begin

text \<open>
  A model of the three jobs of the repository: the data-target job
  (\<^verbatim>\<open>example_ssot_data_target.py\<close>), which loads VLANs from a remote system over HTTP and
  writes changes back to it; the data-source job (\<^verbatim>\<open>example_ssot.py\<close>), which loads VLANs
  through an API client; and the device-fact collector (\<^verbatim>\<open>get_version.py\<close>). The
  libraries the jobs build on (the sync engine and its base classes, the HTTP and API
  clients, the database layer, the remote shell) are not part of the repository; what
  the jobs use of them enters the model as a parameter or as a small definition that
  says what it stands for. Output written with \<^verbatim>\<open>print\<close> is not modelled.
\<close>

section \<open>Python values and errors\<close>

text \<open>
  The jobs are Python. Values that travel through them (decoded JSON, dictionary
  entries, keyword arguments) are modelled by one datatype of Python values. A
  dictionary that was decoded from JSON keeps its entries as an association list in
  insertion order, one entry per key; lookups go through \<open>map_of\<close>. A character of a
  string is a code point below 256 (ASCII and Latin-1); text with other characters is
  outside the model.
\<close>

datatype json =
    JNull
  | JBool bool
  | JInt int
  | JStr string
  | JList "json list"
  | JObj "(string \<times> json) list"

text \<open>Every exception the modelled code can raise is a value of this type.\<close>

datatype error =
    KeyError string
  | TypeError
  | AttributeError
  | ValidationError
  | JSONDecodeError
  | DuplicateIdentityError
  | HTTPError nat
  | ConnectionError
  | Timeout
  | DoesNotExist
  | MultipleObjectsReturned
  | Exception string

text \<open>
  Sequencing: the first error ends the computation, as a raised exception does. The
  second form threads the world through.
\<close>

definition and_then :: "error + 'a \<Rightarrow> ('a \<Rightarrow> error + 'b) \<Rightarrow> error + 'b" where
  "and_then r f = (case r of Inl e \<Rightarrow> Inl e | Inr x \<Rightarrow> f x)"

definition and_then_in :: "(error + 'a) \<times> 'w \<Rightarrow> ('a \<Rightarrow> 'w \<Rightarrow> (error + 'b) \<times> 'w) \<Rightarrow> (error + 'b) \<times> 'w" where
  "and_then_in rw f = (case rw of (Inl e, w) \<Rightarrow> (Inl e, w) | (Inr x, w) \<Rightarrow> f x w)"

text \<open>\<^verbatim>\<open>obj[key]\<close> with a string key: only a dict can be subscripted that way.\<close>

fun subscript :: "json \<Rightarrow> string \<Rightarrow> error + json" where
  "subscript (JObj kvs) k = (case map_of kvs k of None \<Rightarrow> Inl (KeyError k) | Some v \<Rightarrow> Inr v)"
| "subscript JNull k = Inl TypeError"
| "subscript (JBool b) k = Inl TypeError"
| "subscript (JInt i) k = Inl TypeError"
| "subscript (JStr s) k = Inl TypeError"
| "subscript (JList xs) k = Inl TypeError"

text \<open>\<^verbatim>\<open>obj.get(key)\<close>: a dict method; a missing key gives \<^verbatim>\<open>None\<close>.\<close>

fun dict_get :: "json \<Rightarrow> string \<Rightarrow> error + json" where
  "dict_get (JObj kvs) k = Inr (case map_of kvs k of None \<Rightarrow> JNull | Some v \<Rightarrow> v)"
| "dict_get JNull k = Inl AttributeError"
| "dict_get (JBool b) k = Inl AttributeError"
| "dict_get (JInt i) k = Inl AttributeError"
| "dict_get (JStr s) k = Inl AttributeError"
| "dict_get (JList xs) k = Inl AttributeError"

text \<open>Truth value of an object in a condition.\<close>

fun truthy :: "json \<Rightarrow> bool" where
  "truthy JNull = False"
| "truthy (JBool b) = b"
| "truthy (JInt i) = (i \<noteq> 0)"
| "truthy (JStr s) = (s \<noteq> [])"
| "truthy (JList xs) = (xs \<noteq> [])"
| "truthy (JObj kvs) = (kvs \<noteq> [])"

text \<open>
  What a \<^verbatim>\<open>for\<close> loop iterates over: the elements of a list, the keys of a dict, the
  one-character strings of a string; the other values are not iterable.
\<close>

fun py_iter :: "json \<Rightarrow> error + json list" where
  "py_iter (JList xs) = Inr xs"
| "py_iter (JObj kvs) = Inr (map (\<lambda>kv. JStr (fst kv)) kvs)"
| "py_iter (JStr s) = Inr (map (\<lambda>c. JStr [c]) s)"
| "py_iter JNull = Inl TypeError"
| "py_iter (JBool b) = Inl TypeError"
| "py_iter (JInt i) = Inl TypeError"

text \<open>\<^verbatim>\<open>d[key]\<close> and \<^verbatim>\<open>d.get(key, default)\<close> on the keyword dictionaries \<^verbatim>\<open>ids\<close> and \<^verbatim>\<open>attrs\<close>.\<close>

definition dict_item :: "(string \<rightharpoonup> json) \<Rightarrow> string \<Rightarrow> error + json" where
  "dict_item d k = (case d k of None \<Rightarrow> Inl (KeyError k) | Some v \<Rightarrow> Inr v)"

definition dict_get_default :: "(string \<rightharpoonup> json) \<Rightarrow> string \<Rightarrow> json \<Rightarrow> json" where
  "dict_get_default d k dflt = (case d k of None \<Rightarrow> dflt | Some v \<Rightarrow> v)"

text \<open>
  \<^verbatim>\<open>str.lower()\<close>: any value that is not a string has no such method. Among the code
  points below 256 the capital letters are \<^verbatim>\<open>A\<close> to \<^verbatim>\<open>Z\<close> and the Latin-1 capitals, from
  A with grave (192) to thorn (222) without the multiplication sign (215); the small
  letter of each is 32 code points further. Lowering replaces each capital letter by
  its small letter and leaves every other character as it is.
\<close>

definition capital_letters :: string where
  "capital_letters =
     ''ABCDEFGHIJKLMNOPQRSTUVWXYZ'' @
     [CHR 0xC0, CHR 0xC1, CHR 0xC2, CHR 0xC3, CHR 0xC4, CHR 0xC5, CHR 0xC6, CHR 0xC7,
      CHR 0xC8, CHR 0xC9, CHR 0xCA, CHR 0xCB, CHR 0xCC, CHR 0xCD, CHR 0xCE, CHR 0xCF,
      CHR 0xD0, CHR 0xD1, CHR 0xD2, CHR 0xD3, CHR 0xD4, CHR 0xD5, CHR 0xD6,
      CHR 0xD8, CHR 0xD9, CHR 0xDA, CHR 0xDB, CHR 0xDC, CHR 0xDD, CHR 0xDE]"

definition small_letters :: string where
  "small_letters =
     ''abcdefghijklmnopqrstuvwxyz'' @
     [CHR 0xE0, CHR 0xE1, CHR 0xE2, CHR 0xE3, CHR 0xE4, CHR 0xE5, CHR 0xE6, CHR 0xE7,
      CHR 0xE8, CHR 0xE9, CHR 0xEA, CHR 0xEB, CHR 0xEC, CHR 0xED, CHR 0xEE, CHR 0xEF,
      CHR 0xF0, CHR 0xF1, CHR 0xF2, CHR 0xF3, CHR 0xF4, CHR 0xF5, CHR 0xF6,
      CHR 0xF8, CHR 0xF9, CHR 0xFA, CHR 0xFB, CHR 0xFC, CHR 0xFD, CHR 0xFE]"

definition lower_char :: "char \<Rightarrow> char" where
  "lower_char c =
     (case map_of (zip capital_letters small_letters) c of
        None \<Rightarrow> c
      | Some l \<Rightarrow> l)"

fun str_lower :: "json \<Rightarrow> error + json" where
  "str_lower (JStr s) = Inr (JStr (map lower_char s))"
| "str_lower JNull = Inl AttributeError"
| "str_lower (JBool b) = Inl AttributeError"
| "str_lower (JInt i) = Inl AttributeError"
| "str_lower (JList xs) = Inl AttributeError"
| "str_lower (JObj kvs) = Inl AttributeError"

section \<open>The HTTP boundary\<close>

text \<open>
  The \<^verbatim>\<open>requests\<close> calls are the only way the data-target job reaches the remote
  system. A request records everything the code passes to \<^verbatim>\<open>requests\<close>; the remote
  system is a parameter \<open>serve\<close>: a state machine that answers a request with a
  response or with a transport error. The world keeps the remote's state together
  with the list of requests sent so far.
\<close>

datatype http_method = GET | POST | PATCH | DELETE

record request =
  req_method :: http_method
  req_url :: string
  req_headers :: "(string \<times> string) list"
  req_json :: "json option"
  req_timeout :: "nat option"
  req_verify :: bool

record response =
  status_code :: nat
  content :: "json option"

record 'srv world =
  remote :: 'srv
  sent :: "request list"

type_synonym 'srv serve = "'srv \<Rightarrow> request \<Rightarrow> (error + response) \<times> 'srv"

definition send :: "'srv serve \<Rightarrow> request \<Rightarrow> 'srv world \<Rightarrow> (error + response) \<times> 'srv world" where
  "send serve req w =
     (case serve (remote w) req of
        (res, srv') \<Rightarrow> (res, w\<lparr>remote := srv', sent := sent w @ [req]\<rparr>))"

text \<open>\<^verbatim>\<open>response.raise_for_status()\<close>: client and server error statuses raise.\<close>

definition raise_for_status :: "response \<Rightarrow> error + unit" where
  "raise_for_status resp =
     (if 400 \<le> status_code resp \<and> status_code resp < 600
      then Inl (HTTPError (status_code resp)) else Inr ())"

text \<open>\<^verbatim>\<open>response.json()\<close>: a body that is not JSON does not decode.\<close>

definition response_json :: "response \<Rightarrow> error + json" where
  "response_json resp = (case content resp of None \<Rightarrow> Inl JSONDecodeError | Some j \<Rightarrow> Inr j)"

section \<open>The data-target job: model, remote adapter, CRUD bindings\<close>

subsection \<open>VLANModel\<close>

text \<open>
  \<^verbatim>\<open>VLANModel\<close> of \<^verbatim>\<open>example_ssot_data_target.py\<close>: identifiers
  \<^verbatim>\<open>("vid", "name", "vlan_group__name")\<close>, attributes \<^verbatim>\<open>("description", "status__name")\<close>.
  The field \<open>pk\<close> is inherited from the base model class; \<open>update\<close> and \<open>delete\<close>
  read it.
\<close>

record vlan =
  vid :: int
  name :: string
  status__name :: string
  vlan_group__name :: "string option"
  description :: "string option"
  pk :: "string option"

definition identifiers :: "string list" where
  "identifiers = [''vid'', ''name'', ''vlan_group__name'']"

definition attributes :: "string list" where
  "attributes = [''description'', ''status__name'']"

text \<open>
  The constructor call \<^verbatim>\<open>self.vlan(vid=..., name=..., status__name=..., vlan_group__name=...,
  description=...)\<close>. The base class validates the keyword arguments against the
  annotations \<^verbatim>\<open>int\<close>, \<^verbatim>\<open>str\<close>, \<^verbatim>\<open>Optional[str]\<close> when the object is built; the
  validation belongs to the library and is not part of the sources. A value that has
  the annotated type is stored as it is, and \<^verbatim>\<open>None\<close> is stored for an optional field.
  What the validator makes of any other value (it may convert it, as the string
  \<^verbatim>\<open>"10"\<close> to the integer 10, or reject it) is a parameter: \<open>coerce_int\<close> and
  \<open>coerce_str\<close> give the converted value, or nothing when the value is rejected. No
  \<^verbatim>\<open>pk\<close> is passed, so the field is left unset.
\<close>

record validator =
  coerce_int :: "json \<Rightarrow> int option"
  coerce_str :: "json \<Rightarrow> string option"

definition int_field :: "validator \<Rightarrow> json \<Rightarrow> error + int" where
  "int_field vd x =
     (case x of
        JInt i \<Rightarrow> Inr i
      | _ \<Rightarrow> (case coerce_int vd x of None \<Rightarrow> Inl ValidationError | Some i \<Rightarrow> Inr i))"

definition str_field :: "validator \<Rightarrow> json \<Rightarrow> error + string" where
  "str_field vd x =
     (case x of
        JStr s \<Rightarrow> Inr s
      | _ \<Rightarrow> (case coerce_str vd x of None \<Rightarrow> Inl ValidationError | Some s \<Rightarrow> Inr s))"

definition optional_str_field :: "validator \<Rightarrow> json \<Rightarrow> error + string option" where
  "optional_str_field vd x =
     (case x of
        JNull \<Rightarrow> Inr None
      | _ \<Rightarrow> and_then (str_field vd x) (\<lambda>s. Inr (Some s)))"

definition VLANRemoteModel :: "validator \<Rightarrow> json \<Rightarrow> json \<Rightarrow> json \<Rightarrow> json \<Rightarrow> json \<Rightarrow> error + vlan" where
  "VLANRemoteModel vd v n s g d =
     and_then (int_field vd v) (\<lambda>vi.
     and_then (str_field vd n) (\<lambda>ns.
     and_then (str_field vd s) (\<lambda>ss.
     and_then (optional_str_field vd g) (\<lambda>gs.
     and_then (optional_str_field vd d) (\<lambda>ds.
     Inr \<lparr>vid = vi, name = ns, status__name = ss, vlan_group__name = gs,
          description = ds, pk = None\<rparr>)))))"

subsection \<open>MySSoTRemoteAdapter\<close>

record adapter =
  url :: string
  token :: string
  headers :: "(string \<times> string) list"
  store :: "vlan list"

text \<open>\<^verbatim>\<open>__init__\<close>: the headers are built once from the token.\<close>

definition MySSoTRemoteAdapter :: "string \<Rightarrow> string \<Rightarrow> adapter" where
  "MySSoTRemoteAdapter u t =
     \<lparr>url = u, token = t,
      headers = [(''Authorization'', ''Token '' @ t), (''Accept'', ''application/json'')],
      store = []\<rparr>"

text \<open>
  Modelled from the spec: \<^verbatim>\<open>add\<close> is inherited from the sync library's adapter base
  class and is not part of the sources. The spec (Adapter, Data model): the snapshot
  holds the records loaded in one pass, identity keys are unique within it, and
  \<^verbatim>\<open>add(record)\<close> fails with \<^verbatim>\<open>DuplicateIdentityError\<close> if a second record with an
  identical identity key is added. How the base class computes the key of a record from
  its identifier fields is not in the sources either: the function is the parameter
  \<open>unique_id\<close>.
\<close>

definition snapshot_add :: "('r \<Rightarrow> 'k) \<Rightarrow> 'r list \<Rightarrow> 'r \<Rightarrow> error + 'r list" where
  "snapshot_add unique_id snap r =
     (if unique_id r \<in> set (map unique_id snap) then Inl DuplicateIdentityError
      else Inr (snap @ [r]))"

definition add :: "(vlan \<Rightarrow> 'k) \<Rightarrow> adapter \<Rightarrow> vlan \<Rightarrow> error + adapter" where
  "add unique_id self obj =
     and_then (snapshot_add unique_id (store self) obj)
       (\<lambda>snap. Inr (self\<lparr>store := snap\<rparr>))"

text \<open>
  \<^verbatim>\<open>_get_api_data\<close> (the leading underscore is dropped): the warnings about unverified
  requests are switched off, then one GET of the collection URL is sent, with no
  timeout and verification off; the decoded body's \<^verbatim>\<open>"results"\<close> entry is returned. No
  status check is made and no other entry of the body is read.
\<close>

definition get_api_data :: "'srv serve \<Rightarrow> adapter \<Rightarrow> 'srv world \<Rightarrow> (error + json) \<times> 'srv world" where
  "get_api_data serve self w =
     and_then_in
       (send serve
          \<lparr>req_method = GET, req_url = url self @ ''/api/ipam/vlans/'',
           req_headers = headers self, req_json = None, req_timeout = None,
           req_verify = False\<rparr> w)
       (\<lambda>resp w'.
          (and_then (response_json resp) (\<lambda>data. subscript data ''results''), w'))"

text \<open>
  The body of the loop in \<^verbatim>\<open>load\<close>: the keyword arguments are evaluated left to right,
  then the object is built. The status is the literal \<^verbatim>\<open>"active"\<close>; the group name is read
  only when \<^verbatim>\<open>item.get("group")\<close> is truthy.
\<close>

definition loaded_vlan :: "validator \<Rightarrow> json \<Rightarrow> error + vlan" where
  "loaded_vlan vd item =
     and_then (subscript item ''vid'') (\<lambda>v.
     and_then (subscript item ''name'') (\<lambda>n.
     and_then (dict_get item ''group'') (\<lambda>c.
     and_then (if truthy c
               then and_then (subscript item ''group'') (\<lambda>grp. subscript grp ''name'')
               else Inr JNull) (\<lambda>g.
     and_then (subscript item ''description'') (\<lambda>d.
     VLANRemoteModel vd v n (JStr ''active'') g d)))))"

fun load_items :: "validator \<Rightarrow> (vlan \<Rightarrow> 'k) \<Rightarrow> adapter \<Rightarrow> json list \<Rightarrow> error + adapter" where
  "load_items vd unique_id self [] = Inr self"
| "load_items vd unique_id self (item # items) =
     and_then (loaded_vlan vd item) (\<lambda>obj.
     and_then (add unique_id self obj) (\<lambda>self'. load_items vd unique_id self' items))"

definition load :: "'srv serve \<Rightarrow> validator \<Rightarrow> (vlan \<Rightarrow> 'k) \<Rightarrow> adapter \<Rightarrow> 'srv world \<Rightarrow> (error + adapter) \<times> 'srv world" where
  "load serve vd unique_id self w =
     and_then_in (get_api_data serve self w)
       (\<lambda>result_data w'.
          (and_then (py_iter result_data) (\<lambda>items. load_items vd unique_id self items), w'))"

text \<open>
  \<^verbatim>\<open>post\<close>, \<^verbatim>\<open>patch\<close>, \<^verbatim>\<open>delete\<close>: one request each, timeout 60, verification off, then
  \<^verbatim>\<open>raise_for_status\<close>. \<^verbatim>\<open>post\<close> prints the error and raises it again.
\<close>

definition post :: "'srv serve \<Rightarrow> adapter \<Rightarrow> string \<Rightarrow> json \<Rightarrow> 'srv world \<Rightarrow> (error + response) \<times> 'srv world" where
  "post serve self path data w =
     and_then_in
       (send serve
          \<lparr>req_method = POST, req_url = url self @ path, req_headers = headers self,
           req_json = Some data, req_timeout = Some 60, req_verify = False\<rparr> w)
       (\<lambda>response w'.
          (and_then (raise_for_status response) (\<lambda>u. Inr response), w'))"

definition patch :: "'srv serve \<Rightarrow> adapter \<Rightarrow> string \<Rightarrow> json \<Rightarrow> 'srv world \<Rightarrow> (error + response) \<times> 'srv world" where
  "patch serve self path data w =
     and_then_in
       (send serve
          \<lparr>req_method = PATCH, req_url = url self @ path, req_headers = headers self,
           req_json = Some data, req_timeout = Some 60, req_verify = False\<rparr> w)
       (\<lambda>response w'.
          (and_then (raise_for_status response) (\<lambda>u. Inr response), w'))"

definition delete :: "'srv serve \<Rightarrow> adapter \<Rightarrow> string \<Rightarrow> 'srv world \<Rightarrow> (error + response) \<times> 'srv world" where
  "delete serve self path w =
     and_then_in
       (send serve
          \<lparr>req_method = DELETE, req_url = url self @ path, req_headers = headers self,
           req_json = None, req_timeout = Some 60, req_verify = False\<rparr> w)
       (\<lambda>response w'.
          (and_then (raise_for_status response) (\<lambda>u. Inr response), w'))"

subsection \<open>VLANRemoteModel: create, update, delete\<close>

text \<open>
  The three bindings first talk to the remote system through the adapter and then call
  the same method of the base model class. The base class is not part of the sources;
  its three methods are parameters. \<^verbatim>\<open>str(self.pk)\<close> of an unset \<^verbatim>\<open>pk\<close> is \<^verbatim>\<open>"None"\<close>.
  The model's \<^verbatim>\<open>delete\<close> is written \<open>delete_vlan\<close>, the name \<open>delete\<close> being the
  adapter's.
\<close>

record base_model =
  super_create :: "adapter \<Rightarrow> (string \<rightharpoonup> json) \<Rightarrow> (string \<rightharpoonup> json) \<Rightarrow> error + vlan"
  super_update :: "vlan \<Rightarrow> (string \<rightharpoonup> json) \<Rightarrow> error + vlan"
  super_delete :: "vlan \<Rightarrow> error + vlan"

definition str_pk :: "string option \<Rightarrow> string" where
  "str_pk p = (case p of None \<Rightarrow> ''None'' | Some s \<Rightarrow> s)"

text \<open>
  \<^verbatim>\<open>create\<close>: the body of the POST is built from \<^verbatim>\<open>ids\<close> and \<^verbatim>\<open>attrs\<close> (entries in
  source order); the response of \<^verbatim>\<open>diffsync.post\<close> is not bound to anything.
\<close>

definition create_body :: "(string \<rightharpoonup> json) \<Rightarrow> (string \<rightharpoonup> json) \<Rightarrow> error + json" where
  "create_body ids attrs =
     and_then (dict_item ids ''vid'') (\<lambda>v.
     and_then (dict_item ids ''name'') (\<lambda>n.
     and_then (and_then (dict_item attrs ''status__name'') str_lower) (\<lambda>s.
     and_then (dict_item attrs ''description'') (\<lambda>d.
     Inr (JObj [(''vid'', v), (''name'', n), (''status'', s),
                (''group__name'', dict_get_default attrs ''vlan_group__name'' JNull),
                (''description'', d)])))))"

definition create :: "'srv serve \<Rightarrow> base_model \<Rightarrow> adapter \<Rightarrow> (string \<rightharpoonup> json) \<Rightarrow> (string \<rightharpoonup> json) \<Rightarrow> 'srv world \<Rightarrow> (error + vlan) \<times> 'srv world" where
  "create serve base diffsync ids attrs w =
     (case create_body ids attrs of
        Inl e \<Rightarrow> (Inl e, w)
      | Inr data \<Rightarrow>
          and_then_in (post serve diffsync ''/api/ipam/vlans/'' data w)
            (\<lambda>response w'. (super_create base diffsync ids attrs, w')))"

text \<open>
  \<^verbatim>\<open>update\<close>: \<^verbatim>\<open>data\<close> starts empty and receives \<^verbatim>\<open>"description"\<close> and \<^verbatim>\<open>"status"\<close> only
  when \<^verbatim>\<open>attrs\<close> has the attribute.
\<close>

definition update_body :: "(string \<rightharpoonup> json) \<Rightarrow> (string \<times> json) list" where
  "update_body attrs =
     (case attrs ''description'' of None \<Rightarrow> [] | Some d \<Rightarrow> [(''description'', d)]) @
     (case attrs ''status__name'' of None \<Rightarrow> [] | Some s \<Rightarrow> [(''status'', s)])"

definition update :: "'srv serve \<Rightarrow> base_model \<Rightarrow> adapter \<Rightarrow> vlan \<Rightarrow> (string \<rightharpoonup> json) \<Rightarrow> 'srv world \<Rightarrow> (error + vlan) \<times> 'srv world" where
  "update serve base diffsync self attrs w =
     and_then_in
       (patch serve diffsync (''/api/ipam/vlans/'' @ str_pk (pk self) @ ''/'')
          (JObj (update_body attrs)) w)
       (\<lambda>response w'. (super_update base self attrs, w'))"

definition delete_vlan :: "'srv serve \<Rightarrow> base_model \<Rightarrow> adapter \<Rightarrow> vlan \<Rightarrow> 'srv world \<Rightarrow> (error + vlan) \<times> 'srv world" where
  "delete_vlan serve base diffsync self w =
     and_then_in
       (delete serve diffsync (''/api/ipam/vlans/'' @ str_pk (pk self) @ ''/'') w)
       (\<lambda>response w'. (super_delete base self, w'))"

text \<open>
  The wire name of a model field: the key under which \<^verbatim>\<open>create\<close> and \<^verbatim>\<open>update\<close> send it.
\<close>

definition wire_name :: "string \<Rightarrow> string" where
  "wire_name f =
     (if f = ''status__name'' then ''status''
      else if f = ''vlan_group__name'' then ''group__name'' else f)"

section \<open>The data-source job: model and remote adapter\<close>

text \<open>
  \<^verbatim>\<open>example_ssot.py\<close> has its own \<^verbatim>\<open>VLANModel\<close> (identifiers \<^verbatim>\<open>("vid", "group__name")\<close>,
  attribute \<^verbatim>\<open>"description"\<close>) and its own \<^verbatim>\<open>MySSoTRemoteAdapter\<close>, which reads through an
  API client object. The client library is not part of the sources: the objects it
  yields are records with the three attributes the loop reads, and the call
  \<^verbatim>\<open>ipam.vlans.all()\<close> is a field of the client holding what the call gives; the
  requests behind that call are sent by the client library and are not modelled. The
  fields of this model carry the prefix \<open>src_\<close> where the name is taken by the
  data-target model.
\<close>

record source_vlan =
  src_vid :: int
  group__name :: "string option"
  src_description :: "string option"

record api_group =
  group_name :: string

record api_vlan =
  api_vid :: int
  api_group :: "api_group option"
  api_description :: "string option"

record api_client =
  vlans_all :: "error + api_vlan list"

record source_adapter =
  source_api_client :: api_client
  source_store :: "source_vlan list"

text \<open>The loop body of \<^verbatim>\<open>load\<close>: the group name, then the object.\<close>

definition source_loaded_vlan :: "api_vlan \<Rightarrow> source_vlan" where
  "source_loaded_vlan vlan =
     (let group_name = (case api_group vlan of None \<Rightarrow> None | Some g \<Rightarrow> Some (group_name g))
      in \<lparr>src_vid = api_vid vlan, group__name = group_name,
          src_description = api_description vlan\<rparr>)"

fun source_load_items :: "(source_vlan \<Rightarrow> 'k) \<Rightarrow> source_adapter \<Rightarrow> api_vlan list \<Rightarrow> error + source_adapter" where
  "source_load_items unique_id self [] = Inr self"
| "source_load_items unique_id self (vlan # vlans) =
     (let loaded = source_loaded_vlan vlan in
      and_then (snapshot_add unique_id (source_store self) loaded) (\<lambda>snap.
      source_load_items unique_id (self\<lparr>source_store := snap\<rparr>) vlans))"

definition source_load :: "(source_vlan \<Rightarrow> 'k) \<Rightarrow> source_adapter \<Rightarrow> error + source_adapter" where
  "source_load unique_id self =
     and_then (vlans_all (source_api_client self))
       (\<lambda>vlans. source_load_items unique_id self vlans)"

section \<open>The device-fact collector\<close>

text \<open>
  \<^verbatim>\<open>get_version.py\<close>: for each selected device, connect, run the show-version command,
  match the output against the pattern of the platform, and record the version and
  its relationship to the device. The database tables, the secrets, \<^verbatim>\<open>ping\<close> and the
  remote shell are the outside of the script; they are fields of the state and of an
  environment. The field \<^verbatim>\<open>id\<close> of a row is written \<open>dev_id\<close>, \<open>sw_id\<close>, \<open>rel_id\<close>,
  \<open>assoc_id\<close>; a new row takes the counter \<open>next_id\<close> of the database as its id.
  \<^verbatim>\<open>str(device)\<close> is the field \<open>device_name\<close>. What the script has written to the
  database stays written when a later step raises.
\<close>

record platform =
  platform_name :: string
  network_driver :: string

record device =
  dev_id :: nat
  device_name :: string
  platform :: "platform option"
  primary_ip :: "string option"

record softwarelcm =
  sw_id :: nat
  version :: string
  device_platform :: "platform option"

record relationship =
  rel_id :: nat
  label :: string

record relationship_association =
  assoc_id :: nat
  relationship_id :: nat
  source_type :: string
  source_id :: nat
  destination_type :: string
  destination_id :: nat

record database =
  software :: "softwarelcm list"
  relationships :: "relationship list"
  associations :: "relationship_association list"
  content_types :: "string list"
  next_id :: nat

text \<open>The arguments of the \<^verbatim>\<open>print_status\<close> calls, one constructor per message.\<close>

datatype message =
    SupportedPlatforms "string list"
  | DeviceName device
  | DeviceIP string
  | DevicePlatform string
  | DeviceSoftwareVersion string
  | SoftwareExists softwarelcm
  | CreatedSoftware softwarelcm
  | RelationshipExists device softwarelcm
  | CreatedRelationship device softwarelcm

record device_info =
  device_type :: string
  ip :: string
  username :: string
  password :: string
  secret :: string

record collector_state =
  db :: database
  logged :: "(string \<times> message) list"

text \<open>
  The environment: the value of a secret by name, the exit status of
  \<^verbatim>\<open>ping -c 1\<close>, the output of the command in an enabled session (or the error the
  connection raises), and the validation \<^verbatim>\<open>validated_save\<close> runs before it writes.
\<close>

record environment =
  secret_value :: "string \<Rightarrow> error + string"
  ping :: "string \<Rightarrow> int"
  send_command :: "device_info \<Rightarrow> string \<Rightarrow> error + string"
  valid_software :: "database \<Rightarrow> softwarelcm \<Rightarrow> bool"
  valid_association :: "database \<Rightarrow> relationship_association \<Rightarrow> bool"

record onboard_version =
  device :: device
  self_platform :: string
  self_device_info :: device_info
  raw_version :: "string option"
  parsed_version :: "string option"
  nautobot_software :: "softwarelcm option"

definition print_status :: "string \<Rightarrow> message \<Rightarrow> collector_state \<Rightarrow> collector_state" where
  "print_status status msg st = st\<lparr>logged := logged st @ [(status, msg)]\<rparr>"

definition supported_drivers :: "string list" where
  "supported_drivers = [''keymile_nos'', ''cisco_xr'', ''cisco_ios'']"

definition show_version_commands :: "(string \<times> string) list" where
  "show_version_commands =
     [(''arista_eos'', ''show version''),
      (''keymile_nos'', ''show version''),
      (''cisco_xr'', ''show version''),
      (''cisco_ios'', ''show version | inc Cisco IOS Software'')]"

text \<open>
  Every pattern of the table is a literal text followed by the group \<^verbatim>\<open>(\S+)\<close>; the
  table keeps the literal.
\<close>

definition patterns :: "(string \<times> string) list" where
  "patterns =
     [(''arista_eos'', ''Software image version: ''),
      (''keymile_nos'', ''NOS version ''),
      (''cisco_xr'', ''Cisco IOS XR Software, Version ''),
      (''cisco_ios'', ''Version '')]"

definition pattern_source :: "string \<Rightarrow> string" where
  "pattern_source lit = lit @ ''('' @ [CHR 0x5C] @ ''S+)''"

text \<open>
  \<^verbatim>\<open>re.search\<close> for such a pattern: the leftmost position where the literal is followed
  by at least one character that is not white space; group 1 is the longest run of such
  characters there. White space is what \<^verbatim>\<open>\s\<close> matches in a text pattern, for code points
  below 256.
\<close>

definition is_space :: "char \<Rightarrow> bool" where
  "is_space c =
     (c \<in> set [CHR 0x09, CHR 0x0A, CHR 0x0B, CHR 0x0C, CHR 0x0D, CHR 0x1C, CHR 0x1D,
                 CHR 0x1E, CHR 0x1F, CHR 0x20, CHR 0x85, CHR 0xA0])"

definition match_at :: "string \<Rightarrow> string \<Rightarrow> string option" where
  "match_at lit s =
     (if take (length lit) s = lit \<and> takeWhile (\<lambda>c. \<not> is_space c) (drop (length lit) s) \<noteq> []
      then Some (takeWhile (\<lambda>c. \<not> is_space c) (drop (length lit) s)) else None)"

fun re_search :: "string \<Rightarrow> string \<Rightarrow> string option" where
  "re_search lit [] = match_at lit []"
| "re_search lit (c # cs) =
     (case match_at lit (c # cs) of Some g \<Rightarrow> Some g | None \<Rightarrow> re_search lit cs)"

text \<open>\<^verbatim>\<open>s.strip(',')\<close>: commas are removed from both ends.\<close>

definition strip_commas :: "string \<Rightarrow> string" where
  "strip_commas s =
     rev (dropWhile (\<lambda>c. c = CHR '','') (rev (dropWhile (\<lambda>c. c = CHR '','') s)))"

text \<open>\<^verbatim>\<open>Model.objects.get(...)\<close>: exactly one row must satisfy the condition.\<close>

definition objects_get :: "('a \<Rightarrow> bool) \<Rightarrow> 'a list \<Rightarrow> error + 'a" where
  "objects_get cond rows =
     (case filter cond rows of
        [] \<Rightarrow> Inl DoesNotExist
      | [r] \<Rightarrow> Inr r
      | r # r' # rs \<Rightarrow> Inl MultipleObjectsReturned)"

text \<open>\<^verbatim>\<open>OnboardVersion.__init__\<close>.\<close>

definition OnboardVersion :: "environment \<Rightarrow> device \<Rightarrow> collector_state \<Rightarrow> (error + onboard_version) \<times> collector_state" where
  "OnboardVersion env dev st0 =
     (let st = print_status ''info'' (SupportedPlatforms supported_drivers) st0 in
      case platform dev of
        None \<Rightarrow> (Inl AttributeError, st)
      | Some plat \<Rightarrow>
          if network_driver plat \<notin> set supported_drivers
          then (Inl (Exception (''Device '' @ device_name dev @ '' with platform '' @
                                network_driver plat @ '' is not supported'')), st)
          else
            (case primary_ip dev of
               None \<Rightarrow> (Inl AttributeError, st)
             | Some host \<Rightarrow>
                 (and_then (secret_value env ''SSH_USERNAME'') (\<lambda>u.
                  and_then (secret_value env ''SSH_PASSWORD'') (\<lambda>p.
                  and_then (secret_value env ''SSH_SECRET'') (\<lambda>s.
                  Inr \<lparr>device = dev, self_platform = network_driver plat,
                       self_device_info =
                         \<lparr>device_type = network_driver plat, ip = host, username = u,
                          password = p, secret = s\<rparr>,
                       raw_version = None, parsed_version = None,
                       nautobot_software = None\<rparr>))), st)))"

text \<open>
  \<^verbatim>\<open>get_version\<close>: three log lines, the ping, then the session. The command table has
  an entry for every supported driver, so the branch without a command is not reached
  for a task that \<^verbatim>\<open>__init__\<close> has built.
\<close>

definition get_version :: "environment \<Rightarrow> onboard_version \<Rightarrow> collector_state \<Rightarrow> (error + onboard_version) \<times> collector_state" where
  "get_version env self st0 =
     (let st = print_status ''info'' (DevicePlatform (device_type (self_device_info self)))
                 (print_status ''info'' (DeviceIP (ip (self_device_info self)))
                    (print_status ''info'' (DeviceName (device self)) st0)) in
      if ping env (ip (self_device_info self)) \<noteq> 0
      then (Inl (Exception (''Device with IP '' @ ip (self_device_info self) @
                            '' is unreachable'')), st)
      else
        (case map_of show_version_commands (self_platform self) of
           None \<Rightarrow> (Inl TypeError, st)
         | Some command \<Rightarrow>
             (and_then (send_command env (self_device_info self) command) (\<lambda>out.
              Inr (self\<lparr>raw_version := Some out\<rparr>)), st)))"

text \<open>
  \<^verbatim>\<open>parse_version\<close>: \<^verbatim>\<open>re.search\<close> raises a type error when the pattern or the text
  is \<^verbatim>\<open>None\<close>.
\<close>

definition parse_version :: "onboard_version \<Rightarrow> collector_state \<Rightarrow> (error + onboard_version) \<times> collector_state" where
  "parse_version self st =
     (case (map_of patterns (self_platform self), raw_version self) of
        (Some lit, Some raw) \<Rightarrow>
          (case re_search lit raw of
             Some g \<Rightarrow>
               (Inr (self\<lparr>parsed_version := Some (strip_commas g)\<rparr>),
                print_status ''info'' (DeviceSoftwareVersion (strip_commas g)) st)
           | None \<Rightarrow>
               (Inl (Exception (''Could not parse, pattern not found in the input string: '' @
                                pattern_source lit)), st))
      | _ \<Rightarrow> (Inl TypeError, st))"

text \<open>
  \<^verbatim>\<open>import_to_nautobot\<close>: the existence test and the \<^verbatim>\<open>get\<close> both filter on the version
  alone. A new row takes the platform of the device and is written by
  \<^verbatim>\<open>validated_save\<close>, which raises when the row is not valid (as it does for a version
  that is \<^verbatim>\<open>None\<close>).
\<close>

definition import_to_nautobot :: "environment \<Rightarrow> onboard_version \<Rightarrow> collector_state \<Rightarrow> (error + onboard_version) \<times> collector_state" where
  "import_to_nautobot env self st =
     (case parsed_version self of
        None \<Rightarrow> (Inl ValidationError, st)
      | Some v \<Rightarrow>
          if filter (\<lambda>sw. version sw = v) (software (db st)) \<noteq> []
          then
            (case objects_get (\<lambda>sw. version sw = v) (software (db st)) of
               Inl e \<Rightarrow> (Inl e, st)
             | Inr sw \<Rightarrow>
                 (Inr (self\<lparr>nautobot_software := Some sw\<rparr>),
                  print_status ''info'' (SoftwareExists sw) st))
          else
            (let sw = \<lparr>sw_id = next_id (db st), version = v,
                       device_platform = platform (device self)\<rparr> in
             if valid_software env (db st) sw
             then
               (Inr (self\<lparr>nautobot_software := Some sw\<rparr>),
                print_status ''info'' (CreatedSoftware sw)
                  (st\<lparr>db := (db st)\<lparr>software := software (db st) @ [sw],
                                    next_id := Suc (next_id (db st))\<rparr>\<rparr>))
             else (Inl ValidationError, st)))"

text \<open>
  \<^verbatim>\<open>assign_to_device\<close>: the relationship is looked up by its label; the association is
  looked up by the ids of the relationship, the software and the device, and created
  with the two content types when the filter finds none.
\<close>

definition assign_to_device :: "environment \<Rightarrow> onboard_version \<Rightarrow> collector_state \<Rightarrow> (error + onboard_version) \<times> collector_state" where
  "assign_to_device env self st =
     (case objects_get (\<lambda>r. label r = ''Software on Device'') (relationships (db st)) of
        Inl e \<Rightarrow> (Inl e, st)
      | Inr software_rel \<Rightarrow>
          (case nautobot_software self of
             None \<Rightarrow> (Inl AttributeError, st)
           | Some sw \<Rightarrow>
               if filter (\<lambda>a. relationship_id a = rel_id software_rel \<and>
                              source_id a = sw_id sw \<and>
                              destination_id a = dev_id (device self))
                    (associations (db st)) \<noteq> []
               then (Inr self, print_status ''info'' (RelationshipExists (device self) sw) st)
               else
                 (case objects_get (\<lambda>m. m = ''softwarelcm'') (content_types (db st)) of
                    Inl e \<Rightarrow> (Inl e, st)
                  | Inr source_ct \<Rightarrow>
                      (case objects_get (\<lambda>m. m = ''device'') (content_types (db st)) of
                         Inl e \<Rightarrow> (Inl e, st)
                       | Inr dest_ct \<Rightarrow>
                           (let created_rel =
                                  \<lparr>assoc_id = next_id (db st),
                                   relationship_id = rel_id software_rel,
                                   source_type = source_ct, source_id = sw_id sw,
                                   destination_type = dest_ct,
                                   destination_id = dev_id (device self)\<rparr> in
                            if valid_association env (db st) created_rel
                            then
                              (Inr self,
                               print_status ''info'' (CreatedRelationship (device self) sw)
                                 (st\<lparr>db := (db st)\<lparr>associations :=
                                                     associations (db st) @ [created_rel],
                                                   next_id := Suc (next_id (db st))\<rparr>\<rparr>))
                            else (Inl ValidationError, st))))))"

text \<open>\<^verbatim>\<open>execute\<close>: the four steps in order.\<close>

definition execute :: "environment \<Rightarrow> onboard_version \<Rightarrow> collector_state \<Rightarrow> (error + onboard_version) \<times> collector_state" where
  "execute env self st =
     and_then_in (get_version env self st) (\<lambda>self1 st1.
     and_then_in (parse_version self1 st1) (\<lambda>self2 st2.
     and_then_in (import_to_nautobot env self2 st2) (\<lambda>self3 st3.
     assign_to_device env self3 st3)))"

text \<open>\<^verbatim>\<open>GetShowVersion.run\<close>: the loop over the selected devices.\<close>

fun run :: "environment \<Rightarrow> device list \<Rightarrow> collector_state \<Rightarrow> (error + unit) \<times> collector_state" where
  "run env [] st = (Inr (), st)"
| "run env (dev # devices) st =
     and_then_in (OnboardVersion env dev st) (\<lambda>task st1.
     and_then_in (execute env task st1) (\<lambda>finished st2.
     run env devices st2))"

section \<open>The parts of a sync that are not in the sources\<close>

text \<open>
  The job classes derive from the classes of the sync library, which loads the local
  store, compares the two snapshots and calls the bindings. None of that code is part
  of the sources; this section models it from the spec.
\<close>

subsection \<open>Identity keys\<close>

text \<open>
  Modelled from the spec: the identity key of a record. The sources declare the
  identifier fields of each model; the key itself is computed by the library's base
  class. The spec (Data model, Glossary): the identity key is the tuple of the resolved
  identifier field values, and two records are the same entity iff their identifier
  values are equal field by field. The tuples follow the declared order:
  \<^verbatim>\<open>("vid", "name", "vlan_group__name")\<close> in the data-target model,
  \<^verbatim>\<open>("vid", "group__name")\<close> in the data-source model.
\<close>

type_synonym vlan_key = "int \<times> string \<times> string option"

definition identity_key :: "vlan \<Rightarrow> vlan_key" where
  "identity_key v = (vid v, name v, vlan_group__name v)"

type_synonym source_key = "int \<times> string option"

definition source_identity_key :: "source_vlan \<Rightarrow> source_key" where
  "source_identity_key v = (src_vid v, group__name v)"

subsection \<open>The Apply Engine\<close>









section \<open>Reference definitions and example inputs\<close>

text \<open>The one request \<^verbatim>\<open>_get_api_data\<close> sends.\<close>

definition collection_request :: "adapter \<Rightarrow> request" where
  "collection_request self =
     \<lparr>req_method = GET, req_url = url self @ ''/api/ipam/vlans/'',
      req_headers = headers self, req_json = None, req_timeout = None, req_verify = False\<rparr>"

text \<open>
  The paginated read in the spec's words, for comparison with \<open>get_api_data\<close>: each
  page has a list of items and an optional next-page pointer, and the pages are consumed
  until the pointer is exhausted. The fuel bounds the number of pages.
\<close>

fun spec_paginated_read :: "nat \<Rightarrow> 'srv serve \<Rightarrow> adapter \<Rightarrow> string \<Rightarrow> 'srv world \<Rightarrow> (error + json list) option \<times> 'srv world" where
  "spec_paginated_read 0 serve self u w = (None, w)"
| "spec_paginated_read (Suc fuel) serve self u w =
     (case send serve
             \<lparr>req_method = GET, req_url = u, req_headers = headers self, req_json = None,
              req_timeout = None, req_verify = False\<rparr> w of
        (Inl e, w') \<Rightarrow> (Some (Inl e), w')
      | (Inr resp, w') \<Rightarrow>
          (case and_then (response_json resp) (\<lambda>data.
                and_then (subscript data ''results'') (\<lambda>res.
                and_then (py_iter res) (\<lambda>items.
                and_then (dict_get data ''next'') (\<lambda>nxt. Inr (items, nxt))))) of
             Inl e \<Rightarrow> (Some (Inl e), w')
           | Inr (items, nxt) \<Rightarrow>
               (case nxt of
                  JStr u' \<Rightarrow>
                    (case spec_paginated_read fuel serve self u' w' of
                       (Some (Inr rest), w'') \<Rightarrow> (Some (Inr (items @ rest)), w'')
                     | (other, w'') \<Rightarrow> (other, w''))
                | _ \<Rightarrow> (Some (Inr items), w'))))"

text \<open>
  A remote system with two VLANs, served one per page: the first page points to the
  second.
\<close>

definition remote_item :: "int \<Rightarrow> int \<Rightarrow> string \<Rightarrow> json \<Rightarrow> json \<Rightarrow> json" where
  "remote_item i v n g d =
     JObj [(''id'', JInt i), (''vid'', JInt v), (''name'', JStr n),
           (''status'', JObj [(''value'', JStr ''reserved''), (''label'', JStr ''Reserved'')]),
           (''group'', g), (''description'', d)]"

definition page :: "json \<Rightarrow> json list \<Rightarrow> response" where
  "page nxt items =
     \<lparr>status_code = 200,
      content = Some (JObj [(''count'', JInt 2), (''next'', nxt), (''previous'', JNull),
                            (''results'', JList items)])\<rparr>"

definition two_page_remote :: "unit serve" where
  "two_page_remote s req =
     (if req_method req = GET \<and> req_url req = ''https://nb/api/ipam/vlans/''
      then (Inr (page (JStr ''https://nb/api/ipam/vlans/?offset=1'')
                   [remote_item 1 10 ''users'' JNull (JStr ''floor 1'')]), s)
      else if req_method req = GET \<and> req_url req = ''https://nb/api/ipam/vlans/?offset=1''
      then (Inr (page JNull
                   [remote_item 2 20 ''voice''
                      (JObj [(''id'', JInt 7), (''name'', JStr ''hq'')]) JNull]), s)
      else (Inr \<lparr>status_code = 404,
                 content = Some (JObj [(''detail'', JStr ''Not found.'')])\<rparr>, s))"

text \<open>A validator that converts nothing: only values of the annotated types pass.\<close>

definition strict :: validator where
  "strict = \<lparr>coerce_int = (\<lambda>x. None), coerce_str = (\<lambda>x. None)\<rparr>"

definition nb :: adapter where
  "nb = MySSoTRemoteAdapter ''https://nb'' ''t0ken''"

definition vlan10 :: vlan where
  "vlan10 = \<lparr>vid = 10, name = ''users'', status__name = ''active'', vlan_group__name = None,
             description = Some ''floor 1'', pk = None\<rparr>"

text \<open>
  The scheme of a URL is the text before its first colon; a request goes over TLS when
  the scheme of its URL is \<^verbatim>\<open>https\<close>, and in the clear when it is \<^verbatim>\<open>http\<close>.
\<close>

definition url_scheme :: "string \<Rightarrow> string" where
  "url_scheme u = takeWhile (\<lambda>c. c \<noteq> CHR '':'') u"

text \<open>The same adapter configured with a URL that is not an \<^verbatim>\<open>https\<close> URL.\<close>

definition nb_plain :: adapter where
  "nb_plain = MySSoTRemoteAdapter ''http://nb'' ''t0ken''"

text \<open>A status whose name has a capital letter outside ASCII (E with acute, 201).\<close>

definition attrs_latin :: "string \<rightharpoonup> json" where
  "attrs_latin =
     [''description'' \<mapsto> JNull, ''status__name'' \<mapsto> JStr [CHR 0xC9, CHR ''t'', CHR ''E'']]"

text \<open>The one request each of \<^verbatim>\<open>post\<close>, \<^verbatim>\<open>patch\<close> and \<^verbatim>\<open>delete\<close> sends.\<close>

definition post_request :: "adapter \<Rightarrow> string \<Rightarrow> json \<Rightarrow> request" where
  "post_request self path data =
     \<lparr>req_method = POST, req_url = url self @ path, req_headers = headers self,
      req_json = Some data, req_timeout = Some 60, req_verify = False\<rparr>"

definition patch_request :: "adapter \<Rightarrow> string \<Rightarrow> json \<Rightarrow> request" where
  "patch_request self path data =
     \<lparr>req_method = PATCH, req_url = url self @ path, req_headers = headers self,
      req_json = Some data, req_timeout = Some 60, req_verify = False\<rparr>"

definition delete_request :: "adapter \<Rightarrow> string \<Rightarrow> request" where
  "delete_request self path =
     \<lparr>req_method = DELETE, req_url = url self @ path, req_headers = headers self,
      req_json = None, req_timeout = Some 60, req_verify = False\<rparr>"


definition outcome :: "error + response \<Rightarrow> error + response" where
  "outcome answer =
     (case answer of
        Inl e \<Rightarrow> Inl e
      | Inr resp \<Rightarrow>
          if 400 \<le> status_code resp \<and> status_code resp < 600
          then Inl (HTTPError (status_code resp)) else Inr resp)"

text \<open>
  A remote system that is unavailable for the first request it receives and accepts
  every later one, and one that cannot be reached in time.
\<close>

definition flaky_remote :: "nat serve" where
  "flaky_remote n req =
     (if n = 0 then (Inr \<lparr>status_code = 503, content = None\<rparr>, Suc n)
      else (Inr \<lparr>status_code = 200, content = Some (JObj [(''id'', JInt 42)])\<rparr>, Suc n))"

definition silent_remote :: "unit serve" where
  "silent_remote s req = (Inl Timeout, s)"

text \<open>
  A remote system that rejects every change of the VLAN with handle 1 as invalid and
  accepts every other request; it keeps the requests it accepted.
\<close>

definition strict_remote :: "(request list) serve" where
  "strict_remote accepted req =
     (if req_url req = ''https://nb/api/ipam/vlans/1/''
      then (Inr \<lparr>status_code = 400, content = Some (JObj [(''detail'', JStr ''invalid'')])\<rparr>,
            accepted)
      else (Inr \<lparr>status_code = 200, content = Some (JObj [])\<rparr>, accepted @ [req]))"

text \<open>
  A remote system that answers a POST with the created item; the handle it assigns is
  its parameter.
\<close>

definition creating_remote :: "int \<Rightarrow> unit serve" where
  "creating_remote handle s req =
     (if req_method req = POST
      then (Inr \<lparr>status_code = 201,
                 content = Some (JObj [(''id'', JInt handle), (''vid'', JInt 30)])\<rparr>, s)
      else (Inr \<lparr>status_code = 200, content = Some (JObj [])\<rparr>, s))"

text \<open>
  A base model class that only builds, changes and returns the object: \<^verbatim>\<open>create\<close> calls
  the constructor (with the validator that converts nothing) with the entries of
  \<^verbatim>\<open>ids\<close> and \<^verbatim>\<open>attrs\<close>, \<^verbatim>\<open>update\<close> and \<^verbatim>\<open>delete\<close> return the object.
\<close>

definition plain_base :: base_model where
  "plain_base =
     \<lparr>super_create = (\<lambda>diffsync ids attrs.
        VLANRemoteModel strict (dict_get_default ids ''vid'' JNull)
          (dict_get_default ids ''name'' JNull)
          (dict_get_default attrs ''status__name'' JNull)
          (dict_get_default ids ''vlan_group__name'' JNull)
          (dict_get_default attrs ''description'' JNull)),
      super_update = (\<lambda>self attrs. Inr self),
      super_delete = (\<lambda>self. Inr self)\<rparr>"

definition vlan_a :: vlan where
  "vlan_a = \<lparr>vid = 10, name = ''users'', status__name = ''active'', vlan_group__name = None,
            description = Some ''floor 1'', pk = Some ''1''\<rparr>"

definition vlan_b :: vlan where
  "vlan_b = \<lparr>vid = 20, name = ''voice'', status__name = ''active'', vlan_group__name = None,
            description = None, pk = Some ''2''\<rparr>"






definition new_description :: "string \<rightharpoonup> json" where
  "new_description = [''description'' \<mapsto> JStr ''moved'']"

definition ids30 :: "string \<rightharpoonup> json" where
  "ids30 = [''vid'' \<mapsto> JInt 30, ''name'' \<mapsto> JStr ''guest'', ''vlan_group__name'' \<mapsto> JNull]"

definition attrs30 :: "string \<rightharpoonup> json" where
  "attrs30 = [''description'' \<mapsto> JStr ''lobby'', ''status__name'' \<mapsto> JStr ''Active'']"

definition vlan30 :: vlan where
  "vlan30 = \<lparr>vid = 30, name = ''guest'', status__name = ''Active'', vlan_group__name = None,
             description = Some ''lobby'', pk = None\<rparr>"

text \<open>
  The declared defaults of the optional group field: \<^verbatim>\<open>vlan_group__name: Optional[str] = None\<close>
  in the data-target model, \<^verbatim>\<open>group__name: Optional[str] = None\<close> in the data-source model.
\<close>

definition default_vlan_group__name :: "string option" where
  "default_vlan_group__name = None"

definition default_group__name :: "string option" where
  "default_group__name = None"

text \<open>A VLAN without a group, as the API client of the data-source job yields it.\<close>

definition api_vlan10 :: api_vlan where
  "api_vlan10 = \<lparr>api_vid = 10, api_group = None, api_description = Some ''floor 1''\<rparr>"

definition status_change :: "string \<rightharpoonup> json" where
  "status_change = [''status__name'' \<mapsto> JStr ''Reserved'']"

text \<open>
  A laboratory for the collector: every secret has a value, the address 10.0.0.9 does
  not answer the ping, the device at 10.0.0.1 prints a version line and every other
  device prints a text without one; validation accepts every row.
\<close>

definition lab :: environment where
  "lab =
     \<lparr>secret_value = (\<lambda>n. Inr ''s3cret''),
      ping = (\<lambda>host. if host = ''10.0.0.9'' then 256 else 0),
      send_command = (\<lambda>info command.
        if ip info = ''10.0.0.1'' then Inr ''Cisco IOS Software, Version 15.2(7)E3, REL''
        else Inr ''% Invalid input''),
      valid_software = (\<lambda>d sw. True),
      valid_association = (\<lambda>d assoc. True)\<rparr>"

definition ios :: platform where
  "ios = \<lparr>platform_name = ''Cisco IOS'', network_driver = ''cisco_ios''\<rparr>"

definition eos :: platform where
  "eos = \<lparr>platform_name = ''Arista EOS'', network_driver = ''arista_eos''\<rparr>"

definition switch1 :: device where
  "switch1 = \<lparr>dev_id = 1, device_name = ''sw1'', platform = Some ios,
              primary_ip = Some ''10.0.0.1''\<rparr>"

definition switch2 :: device where
  "switch2 = \<lparr>dev_id = 2, device_name = ''sw2'', platform = Some eos,
              primary_ip = Some ''10.0.0.2''\<rparr>"

definition switch3 :: device where
  "switch3 = \<lparr>dev_id = 3, device_name = ''sw3'', platform = Some ios,
              primary_ip = Some ''10.0.0.3''\<rparr>"

definition switch9 :: device where
  "switch9 = \<lparr>dev_id = 9, device_name = ''sw9'', platform = Some ios,
              primary_ip = Some ''10.0.0.9''\<rparr>"

definition empty_db :: database where
  "empty_db =
     \<lparr>software = [], relationships = [\<lparr>rel_id = 5, label = ''Software on Device''\<rparr>],
      associations = [], content_types = [''device'', ''softwarelcm''], next_id = 100\<rparr>"

definition start :: collector_state where
  "start = \<lparr>db = empty_db, logged = []\<rparr>"

definition software1 :: softwarelcm where
  "software1 = \<lparr>sw_id = 100, version = ''15.2(7)E3'', device_platform = Some ios\<rparr>"

definition recorded_db :: database where
  "recorded_db =
     \<lparr>software = [software1],
      relationships = [\<lparr>rel_id = 5, label = ''Software on Device''\<rparr>],
      associations = [\<lparr>assoc_id = 101, relationship_id = 5, source_type = ''softwarelcm'',
                       source_id = 100, destination_type = ''device'', destination_id = 1\<rparr>],
      content_types = [''device'', ''softwarelcm''], next_id = 102\<rparr>"

definition task1 :: onboard_version where
  "task1 =
     \<lparr>device = switch1, self_platform = ''cisco_ios'',
      self_device_info = \<lparr>device_type = ''cisco_ios'', ip = ''10.0.0.1'', username = ''s3cret'',
                           password = ''s3cret'', secret = ''s3cret''\<rparr>,
      raw_version = None, parsed_version = None, nautobot_software = None\<rparr>"

text \<open>
  Whether an association row links the given relationship, software and device: the
  condition of the filter in \<^verbatim>\<open>assign_to_device\<close>.
\<close>

definition same_relationship :: "relationship \<Rightarrow> softwarelcm \<Rightarrow> device \<Rightarrow> relationship_association \<Rightarrow> bool" where
  "same_relationship rel sw dev a \<longleftrightarrow>
     relationship_id a = rel_id rel \<and> source_id a = sw_id sw \<and> destination_id a = dev_id dev"

text \<open>The states of the laboratory after the first run for \<open>switch1\<close>, and on the way.\<close>

definition first_run :: collector_state where
  "first_run =
     \<lparr>db = recorded_db,
      logged =
        [(''info'', SupportedPlatforms supported_drivers),
         (''info'', DeviceName switch1),
         (''info'', DeviceIP ''10.0.0.1''),
         (''info'', DevicePlatform ''cisco_ios''),
         (''info'', DeviceSoftwareVersion ''15.2(7)E3''),
         (''info'', CreatedSoftware software1),
         (''info'', CreatedRelationship switch1 software1)]\<rparr>"

definition parsed1 :: onboard_version where
  "parsed1 =
     task1\<lparr>raw_version := Some ''Cisco IOS Software, Version 15.2(7)E3, REL'',
           parsed_version := Some ''15.2(7)E3''\<rparr>"

definition imported :: collector_state where
  "imported = \<lparr>db = empty_db\<lparr>software := [software1], next_id := 101\<rparr>, logged = []\<rparr>"

definition task9 :: onboard_version where
  "task9 =
     task1\<lparr>device := switch9,
           self_device_info := (self_device_info task1)\<lparr>ip := ''10.0.0.9''\<rparr>\<rparr>"

definition task3 :: onboard_version where
  "task3 =
     task1\<lparr>device := switch3,
           self_device_info := (self_device_info task1)\<lparr>ip := ''10.0.0.3''\<rparr>\<rparr>"

text \<open>The entries of a remote item that has no group key at all.\<close>

definition entries11 :: "(string \<times> json) list" where
  "entries11 = [(''vid'', JInt 11), (''name'', JStr ''lab''), (''description'', JNull)]"

section \<open>Properties\<close>

subsection \<open>Sequencing\<close>

lemma and_then_Inr: "and_then r f = Inr y \<Longrightarrow> \<exists>x. r = Inr x \<and> f x = Inr y"
  by (cases r) (simp_all add: and_then_def)

lemma and_then_in_Inr:
  "and_then_in rw f = (Inr y, w') \<Longrightarrow> \<exists>x w1. rw = (Inr x, w1) \<and> f x w1 = (Inr y, w')"
  by (cases rw; cases "fst rw") (auto simp: and_then_in_def)

lemmas run_defs = and_then_def and_then_in_def send_def response_json_def raise_for_status_def

subsection \<open>Loading from the remote system\<close>

lemma add_Inr:
  "add unique_id self obj = Inr self' \<Longrightarrow> self' = self\<lparr>store := store self @ [obj]\<rparr>"
  by (auto simp: add_def snapshot_add_def and_then_def split: if_splits)

lemma load_items_store:
  "load_items vd unique_id self items = Inr self' \<Longrightarrow>
   \<exists>objs. map (loaded_vlan vd) items = map Inr objs \<and>
          self' = self\<lparr>store := store self @ objs\<rparr>"
proof (induction items arbitrary: self)
  case Nil
  then show ?case by simp
next
  case (Cons item items)
  from Cons.prems obtain obj where obj: "loaded_vlan vd item = Inr obj"
    and rest: "and_then (add unique_id self obj) (\<lambda>s. load_items vd unique_id s items) = Inr self'"
    by (auto dest: and_then_Inr)
  from rest obtain s1 where s1: "add unique_id self obj = Inr s1" and li: "load_items vd unique_id s1 items = Inr self'"
    by (auto dest: and_then_Inr)
  note s1_eq = add_Inr[OF s1]
  from Cons.IH[OF li] obtain objs where
    objs: "map (loaded_vlan vd) items = map Inr objs"
    and fin: "self' = s1\<lparr>store := store s1 @ objs\<rparr>"
    by blast
  have "map (loaded_vlan vd) (item # items) = map Inr (obj # objs)"
    using obj objs by simp
  moreover have "self' = self\<lparr>store := store self @ (obj # objs)\<rparr>"
    using fin s1_eq by simp
  ultimately show ?case by blast
qed

lemma get_api_data_one_request:
  "get_api_data serve self w = (r, w') \<Longrightarrow>
   sent w' = sent w @ [collection_request self] \<and>
   remote w' = snd (serve (remote w) (collection_request self))"
  by (auto simp: get_api_data_def and_then_in_def send_def collection_request_def
           split: prod.splits sum.splits)

lemma get_api_data_Inr:
  "get_api_data serve self w = (Inr res, w') \<Longrightarrow>
   \<exists>resp data. fst (serve (remote w) (collection_request self)) = Inr resp \<and>
               content resp = Some data \<and> subscript data ''results'' = Inr res"
  by (auto simp: get_api_data_def and_then_in_def send_def collection_request_def
                 and_then_def response_json_def
           split: prod.splits sum.splits option.splits)

lemma load_store_grows:
  assumes "load serve vd unique_id self w = (Inr self', w')"
  shows "\<exists>items objs.
           map (loaded_vlan vd) items = map Inr objs \<and>
           self' = self\<lparr>store := store self @ objs\<rparr>"
proof -
  from assms obtain result_data w1 where
    "(and_then (py_iter result_data) (\<lambda>items. load_items vd unique_id self items), w1) = (Inr self', w')"
    unfolding load_def by (auto dest: and_then_in_Inr)
  then have "and_then (py_iter result_data) (\<lambda>items. load_items vd unique_id self items) = Inr self'"
    by simp
  then obtain items where "load_items vd unique_id self items = Inr self'"
    by (auto dest: and_then_Inr)
  from load_items_store[OF this] show ?thesis by blast
qed

lemmas two_page_defs = load_def get_api_data_def run_defs two_page_remote_def page_def
  remote_item_def nb_def MySSoTRemoteAdapter_def loaded_vlan_def VLANRemoteModel_def add_def
  snapshot_add_def identity_key_def strict_def int_field_def str_field_def optional_str_field_def collection_request_def vlan10_def

lemma load_two_page_remote:
  "load two_page_remote strict identity_key nb \<lparr>remote = (), sent = []\<rparr> =
     (Inr (nb\<lparr>store := [vlan10]\<rparr>),
      \<lparr>remote = (), sent = [collection_request nb]\<rparr>)"
  by (simp add: two_page_defs)

lemma load_sent:
  "sent (snd (load serve vd unique_id self w)) = sent w @ [collection_request self]"
proof -
  obtain r w1 where g: "get_api_data serve self w = (r, w1)"
    by (cases "get_api_data serve self w")
  from get_api_data_one_request[OF g] have "sent w1 = sent w @ [collection_request self]"
    by simp
  moreover have "snd (load serve vd unique_id self w) = w1"
    by (cases r) (simp_all add: load_def g and_then_in_def)
  ultimately show ?thesis by simp
qed

lemma load_Inr:
  assumes "load serve vd unique_id self w = (Inr self', w')"
  shows "\<exists>resp data result_data items objs.
           fst (serve (remote w) (collection_request self)) = Inr resp \<and>
           content resp = Some data \<and>
           subscript data ''results'' = Inr result_data \<and>
           py_iter result_data = Inr items \<and>
           map (loaded_vlan vd) items = map Inr objs \<and>
           self' = self\<lparr>store := store self @ objs\<rparr>"
proof -
  from assms obtain result_data w1 where
    g: "get_api_data serve self w = (Inr result_data, w1)"
    and r: "(and_then (py_iter result_data) (\<lambda>items. load_items vd unique_id self items), w1) = (Inr self', w')"
    unfolding load_def by (auto dest: and_then_in_Inr)
  from r have
    r': "and_then (py_iter result_data) (\<lambda>items. load_items vd unique_id self items) = Inr self'"
    by simp
  from r' obtain items where it: "py_iter result_data = Inr items"
    and li: "load_items vd unique_id self items = Inr self'"
    by (auto dest: and_then_Inr)
  from load_items_store[OF li] obtain objs where
    o: "map (loaded_vlan vd) items = map Inr objs"
       "self' = self\<lparr>store := store self @ objs\<rparr>"
    by blast
  from get_api_data_Inr[OF g] obtain resp data where
    d: "fst (serve (remote w) (collection_request self)) = Inr resp"
       "content resp = Some data" "subscript data ''results'' = Inr result_data"
    by blast
  show ?thesis using d it o by blast
qed

subsection \<open>C1\<close>

text \<open>
  C1 (as the code has it). Every run of \<^verbatim>\<open>load\<close> sends exactly one request, the GET of
  the collection URL, and never follows a next-page pointer; when it succeeds, the
  adapter's snapshot has grown by exactly one record per item of the \<^verbatim>\<open>"results"\<close> list
  of that one response, in order, each built by the loop body.
\<close>

theorem load_reads_one_response:
  "sent (snd (load serve vd unique_id self w)) = sent w @ [collection_request self] \<and>
   (load serve vd unique_id self w = (Inr self', w') \<longrightarrow>
      (\<exists>resp data result_data items objs.
         fst (serve (remote w) (collection_request self)) = Inr resp \<and>
         content resp = Some data \<and>
         subscript data ''results'' = Inr result_data \<and>
         py_iter result_data = Inr items \<and>
         map (loaded_vlan vd) items = map Inr objs \<and>
         self' = self\<lparr>store := store self @ objs\<rparr>))"
proof (intro conjI impI)
  show "sent (snd (load serve vd unique_id self w)) = sent w @ [collection_request self]"
    by (rule load_sent)
  show "\<exists>resp data result_data items objs.
         fst (serve (remote w) (collection_request self)) = Inr resp \<and>
         content resp = Some data \<and>
         subscript data ''results'' = Inr result_data \<and>
         py_iter result_data = Inr items \<and>
         map (loaded_vlan vd) items = map Inr objs \<and>
         self' = self\<lparr>store := store self @ objs\<rparr>"
    if "load serve vd unique_id self w = (Inr self', w')"
    using that by (rule load_Inr)
qed

theorem load_reads_one_response_witness:
  "load two_page_remote strict identity_key nb \<lparr>remote = (), sent = []\<rparr> =
     (Inr (nb\<lparr>store := [vlan10]\<rparr>),
      \<lparr>remote = (), sent = [collection_request nb]\<rparr>) \<and>
   (\<exists>resp data result_data items objs.
      fst (two_page_remote (remote \<lparr>remote = (), sent = []\<rparr>) (collection_request nb)) = Inr resp \<and>
      content resp = Some data \<and>
      subscript data ''results'' = Inr result_data \<and>
      py_iter result_data = Inr items \<and>
      map (loaded_vlan strict) items = map Inr objs \<and>
      nb\<lparr>store := [vlan10]\<rparr> =
        nb\<lparr>store := store nb @ objs\<rparr>) \<and>
   sent (snd (load two_page_remote strict identity_key nb \<lparr>remote = (), sent = []\<rparr>)) =
     sent \<lparr>remote = (), sent = []\<rparr> @ [collection_request nb]"
proof -
  note t = load_reads_one_response
    [where serve = two_page_remote and vd = strict and unique_id = identity_key and self = nb
       and w = "\<lparr>remote = (), sent = []\<rparr>"
       and self' = "nb\<lparr>store := [vlan10]\<rparr>"
       and w' = "\<lparr>remote = (), sent = [collection_request nb]\<rparr>"]
  from t[THEN conjunct2] load_two_page_remote
  have a: "\<exists>resp data result_data items objs.
      fst (two_page_remote (remote \<lparr>remote = (), sent = []\<rparr>) (collection_request nb)) = Inr resp \<and>
      content resp = Some data \<and>
      subscript data ''results'' = Inr result_data \<and>
      py_iter result_data = Inr items \<and>
      map (loaded_vlan strict) items = map Inr objs \<and>
      nb\<lparr>store := [vlan10]\<rparr> =
        nb\<lparr>store := store nb @ objs\<rparr>"
    by (rule mp)
  from load_two_page_remote a t[THEN conjunct1] show ?thesis
    by (intro conjI)
qed

text \<open>
  C1 (as stated) fails: the remote collection holds two items, both of which the
  paginated read of the spec returns, and the snapshot after \<^verbatim>\<open>load\<close> has the record of
  the first page only, after a single request.
\<close>

theorem load_misses_second_page:
  "fst (spec_paginated_read 3 two_page_remote nb ''https://nb/api/ipam/vlans/''
          \<lparr>remote = (), sent = []\<rparr>) =
     Some (Inr [remote_item 1 10 ''users'' JNull (JStr ''floor 1''),
                remote_item 2 20 ''voice'' (JObj [(''id'', JInt 7), (''name'', JStr ''hq'')]) JNull]) \<and>
   fst (load two_page_remote strict identity_key nb \<lparr>remote = (), sent = []\<rparr>) =
     Inr (nb\<lparr>store := [vlan10]\<rparr>) \<and>
   length (sent (snd (load two_page_remote strict identity_key nb \<lparr>remote = (), sent = []\<rparr>))) = 1"
  by (simp add: two_page_defs numeral_3_eq_3)

subsection \<open>The HTTP bindings\<close>

lemma post_eq:
  "post serve self path data w =
     (outcome (fst (serve (remote w) (post_request self path data))),
      w\<lparr>remote := snd (serve (remote w) (post_request self path data)),
        sent := sent w @ [post_request self path data]\<rparr>)"
  by (simp add: post_def post_request_def outcome_def run_defs split: prod.splits sum.splits)

lemma patch_eq:
  "patch serve self path data w =
     (outcome (fst (serve (remote w) (patch_request self path data))),
      w\<lparr>remote := snd (serve (remote w) (patch_request self path data)),
        sent := sent w @ [patch_request self path data]\<rparr>)"
  by (simp add: patch_def patch_request_def outcome_def run_defs split: prod.splits sum.splits)

lemma delete_eq:
  "delete serve self path w =
     (outcome (fst (serve (remote w) (delete_request self path))),
      w\<lparr>remote := snd (serve (remote w) (delete_request self path)),
        sent := sent w @ [delete_request self path]\<rparr>)"
  by (simp add: delete_def delete_request_def outcome_def run_defs split: prod.splits sum.splits)

lemma outcome_Inl: "outcome (Inl e) = Inl e"
  by (simp add: outcome_def)

lemma outcome_error_status:
  "400 \<le> status_code resp \<Longrightarrow> status_code resp < 600 \<Longrightarrow>
   outcome (Inr resp) = Inl (HTTPError (status_code resp))"
  by (simp add: outcome_def)

lemma update_eq:
  "update serve base diffsync self attrs w =
    (let req = patch_request diffsync (''/api/ipam/vlans/'' @ str_pk (pk self) @ ''/'') (JObj (update_body attrs))
     in (and_then (outcome (fst (serve (remote w) req))) (\<lambda>r. super_update base self attrs),
         w\<lparr>remote := snd (serve (remote w) req), sent := sent w @ [req]\<rparr>))"
  by (simp add: update_def patch_eq and_then_in_def and_then_def Let_def split: sum.splits)

lemma delete_vlan_eq:
  "delete_vlan serve base diffsync self w =
    (let req = delete_request diffsync (''/api/ipam/vlans/'' @ str_pk (pk self) @ ''/'')
     in (and_then (outcome (fst (serve (remote w) req))) (\<lambda>r. super_delete base self),
         w\<lparr>remote := snd (serve (remote w) req), sent := sent w @ [req]\<rparr>))"
  by (simp add: delete_vlan_def delete_eq and_then_in_def and_then_def Let_def split: sum.splits)

lemma create_eq:
  "create serve base diffsync ids attrs w =
    (case create_body ids attrs of
       Inl e \<Rightarrow> (Inl e, w)
     | Inr data \<Rightarrow>
        (let req = post_request diffsync ''/api/ipam/vlans/'' data
         in (and_then (outcome (fst (serve (remote w) req))) (\<lambda>r. super_create base diffsync ids attrs),
             w\<lparr>remote := snd (serve (remote w) req), sent := sent w @ [req]\<rparr>)))"
  by (simp add: create_def post_eq and_then_in_def and_then_def Let_def split: sum.splits)

lemma update_sent:
  "sent (snd (update serve base diffsync self attrs w)) =
     sent w @ [patch_request diffsync (''/api/ipam/vlans/'' @ str_pk (pk self) @ ''/'')
                 (JObj (update_body attrs))]"
  by (simp add: update_eq Let_def)

lemma delete_vlan_sent:
  "sent (snd (delete_vlan serve base diffsync self w)) =
     sent w @ [delete_request diffsync (''/api/ipam/vlans/'' @ str_pk (pk self) @ ''/'')]"
  by (simp add: delete_vlan_eq Let_def)

lemma create_sent:
  "sent (snd (create serve base diffsync ids attrs w)) =
     (case create_body ids attrs of
        Inl e \<Rightarrow> sent w
      | Inr data \<Rightarrow> sent w @ [post_request diffsync ''/api/ipam/vlans/'' data])"
  by (simp add: create_eq Let_def split: sum.splits)

lemma get_api_data_sent:
  "sent (snd (get_api_data serve self w)) = sent w @ [collection_request self]"
  using get_api_data_one_request[of serve self w "fst (get_api_data serve self w)" "snd (get_api_data serve self w)"]
  by simp

lemmas fixture_defs = flaky_remote_def silent_remote_def strict_remote_def creating_remote_def
  plain_base_def vlan_a_def vlan_b_def new_description_def ids30_def attrs30_def vlan30_def
  nb_def MySSoTRemoteAdapter_def

lemma nb_simps: "url nb = ''https://nb''" "token nb = ''t0ken''"
  "headers nb = [(''Authorization'', ''Token t0ken''), (''Accept'', ''application/json'')]"
  "store nb = []"
  by (simp_all add: nb_def MySSoTRemoteAdapter_def)

lemma create_body30: "create_body ids30 attrs30 = Inr (JObj [(''vid'', JInt 30), (''name'', JStr ''guest''), (''status'', JStr ''active''),
  (''group__name'', JNull), (''description'', JStr ''lobby'')])"
  by code_simp

lemma plain_create30: "super_create plain_base nb ids30 attrs30 = Inr vlan30"
  by (simp add: plain_base_def ids30_def attrs30_def vlan30_def VLANRemoteModel_def int_field_def
        str_field_def optional_str_field_def and_then_def strict_def dict_get_default_def)

lemma create30:
  "create (creating_remote 42) plain_base nb ids30 attrs30 \<lparr>remote = (), sent = []\<rparr> =
     (Inr vlan30,
      \<lparr>remote = (),
       sent = [post_request nb ''/api/ipam/vlans/''
                 (JObj [(''vid'', JInt 30), (''name'', JStr ''guest''), (''status'', JStr ''active''),
                        (''group__name'', JNull), (''description'', JStr ''lobby'')])]\<rparr>)"
  by (simp add: create_eq create_body30 plain_create30 creating_remote_def outcome_def and_then_def
        post_request_def Let_def)

lemma update_raises:
  "outcome (fst (serve (remote w) (patch_request diffsync (''/api/ipam/vlans/'' @ str_pk (pk self) @ ''/'') (JObj (update_body attrs))))) = Inl e
   \<Longrightarrow> fst (update serve base diffsync self attrs w) = Inl e"
  by (simp add: update_eq Let_def and_then_def)

lemma delete_vlan_raises:
  "outcome (fst (serve (remote w) (delete_request diffsync (''/api/ipam/vlans/'' @ str_pk (pk self) @ ''/'')))) = Inl e
   \<Longrightarrow> fst (delete_vlan serve base diffsync self w) = Inl e"
  by (simp add: delete_vlan_eq Let_def and_then_def)

lemma create_raises:
  "create_body ids attrs = Inr data \<Longrightarrow>
   outcome (fst (serve (remote w) (post_request diffsync ''/api/ipam/vlans/'' data))) = Inl e
   \<Longrightarrow> fst (create serve base diffsync ids attrs w) = Inl e"
  by (simp add: create_eq Let_def and_then_def)

lemma create_result:
  "create serve base diffsync ids attrs w = (Inr obj, w') \<Longrightarrow>
   super_create base diffsync ids attrs = Inr obj"
  by (auto simp: create_eq Let_def and_then_def split: sum.splits)

lemma vlan_a_rejected:
  "outcome (fst (strict_remote (remote \<lparr>remote = [], sent = []\<rparr>)
       (patch_request nb (''/api/ipam/vlans/'' @ str_pk (pk vlan_a) @ ''/'')
          (JObj (update_body new_description))))) = Inl (HTTPError 400)"
  by (simp add: strict_remote_def outcome_def patch_request_def nb_simps vlan_a_def str_pk_def)

lemma update_body_changed:
  "update_body attrs =
     List.map_filter (\<lambda>a. case attrs a of None \<Rightarrow> None | Some v \<Rightarrow> Some (wire_name a, v)) attributes"
  by (simp add: update_body_def attributes_def List.map_filter_simps wire_name_def split: option.splits)

lemma update_body_keys:
  "set (map fst (update_body attrs)) \<subseteq> {''description'', ''status''}"
  by (auto simp: update_body_def split: option.splits)

lemma update_body_no_identifier:
  "set (map fst (update_body attrs)) \<inter> (set identifiers \<union> set (map wire_name identifiers)) = {}"
  by (auto simp: update_body_def identifiers_def wire_name_def split: option.splits)

lemma update_body_unchanged:
  assumes "a \<in> set attributes" and "attrs a = None"
  shows "wire_name a \<notin> set (map fst (update_body attrs))"
proof -
  from assms(1) have "a = ''description'' \<or> a = ''status__name''"
    by (simp add: attributes_def)
  then show ?thesis
  proof
    assume "a = ''description''"
    with assms(2) show ?thesis
      by (cases "attrs ''status__name''"; cases "attrs ''description''")
         (simp_all add: update_body_def wire_name_def)
  next
    assume "a = ''status__name''"
    with assms(2) show ?thesis
      by (cases "attrs ''status__name''"; cases "attrs ''description''")
         (simp_all add: update_body_def wire_name_def)
  qed
qed

lemma update_json_sent:
  "map req_json (sent (snd (update serve base diffsync self attrs w))) =
     map req_json (sent w) @ [Some (JObj (update_body attrs))]"
  by (simp add: update_sent patch_request_def)

lemma status_not_changed:
  "''status__name'' \<in> set attributes \<and> new_description ''status__name'' = None"
  by (simp add: attributes_def new_description_def)

lemma silent_hypotheses:
  "(create_body ids30 attrs30 =
      Inr (JObj [(''vid'', JInt 30), (''name'', JStr ''guest''), (''status'', JStr ''active''),
                 (''group__name'', JNull), (''description'', JStr ''lobby'')]) \<and>
    outcome (fst (silent_remote (remote \<lparr>remote = (), sent = []\<rparr>)
       (post_request nb ''/api/ipam/vlans/''
          (JObj [(''vid'', JInt 30), (''name'', JStr ''guest''), (''status'', JStr ''active''),
                 (''group__name'', JNull), (''description'', JStr ''lobby'')])))) = Inl Timeout) \<and>
   outcome (fst (silent_remote (remote \<lparr>remote = (), sent = []\<rparr>)
       (delete_request nb (''/api/ipam/vlans/'' @ str_pk (pk vlan_a) @ ''/'')))) = Inl Timeout"
  using create_body30 by (simp add: silent_remote_def outcome_def)

subsection \<open>The Apply Engine\<close>










subsection \<open>C2\<close>



subsection \<open>C3\<close>

text \<open>
  C3 (as the code has it). Nothing is retried and no failure is classified: \<^verbatim>\<open>post\<close>,
  \<^verbatim>\<open>patch\<close> and \<^verbatim>\<open>delete\<close> send exactly one request whatever the answer, and their result
  is the outcome of that one answer: a transport error (a timeout among them) is raised
  as it is, every status from 400 to 599 (429 and 503 as much as 400 and 404) is raised
  as an HTTP error. \<^verbatim>\<open>update\<close> and \<^verbatim>\<open>delete\<close> of the model so send one request, \<^verbatim>\<open>create\<close>
  at most one.
\<close>

theorem bindings_send_once_without_retry:
  "sent (snd (post serve self path data w)) = sent w @ [post_request self path data] \<and>
   sent (snd (patch serve self path data w)) = sent w @ [patch_request self path data] \<and>
   sent (snd (delete serve self path w)) = sent w @ [delete_request self path] \<and>
   fst (post serve self path data w) =
     outcome (fst (serve (remote w) (post_request self path data))) \<and>
   fst (patch serve self path data w) =
     outcome (fst (serve (remote w) (patch_request self path data))) \<and>
   fst (delete serve self path w) =
     outcome (fst (serve (remote w) (delete_request self path))) \<and>
   outcome (Inl e) = Inl e \<and>
   (400 \<le> status_code resp \<and> status_code resp < 600 \<longrightarrow>
      outcome (Inr resp) = Inl (HTTPError (status_code resp))) \<and>
   length (sent (snd (update serve base self obj attrs w))) = Suc (length (sent w)) \<and>
   length (sent (snd (delete_vlan serve base self obj w))) = Suc (length (sent w)) \<and>
   length (sent (snd (create serve base self ids attrs w))) \<le> Suc (length (sent w))"
  by (simp add: post_eq patch_eq delete_eq outcome_Inl outcome_error_status
        update_sent delete_vlan_sent create_sent split: sum.splits)

theorem bindings_send_once_without_retry_witness:
  "sent (snd (patch flaky_remote nb ''/api/ipam/vlans/1/'' (JObj []) \<lparr>remote = 0, sent = []\<rparr>)) =
     [patch_request nb ''/api/ipam/vlans/1/'' (JObj [])] \<and>
   fst (patch flaky_remote nb ''/api/ipam/vlans/1/'' (JObj []) \<lparr>remote = 0, sent = []\<rparr>) =
     Inl (HTTPError 503) \<and>
   fst (patch silent_remote nb ''/api/ipam/vlans/1/'' (JObj []) \<lparr>remote = (), sent = []\<rparr>) =
     Inl Timeout \<and>
   (400::nat) \<le> 503 \<and> (503::nat) < 600 \<and>
   outcome (Inr \<lparr>status_code = 503, content = None\<rparr>) = Inl (HTTPError 503)"
  using bindings_send_once_without_retry
          [of flaky_remote nb "''/api/ipam/vlans/1/''" "JObj []" "\<lparr>remote = 0, sent = []\<rparr>"
              Timeout "\<lparr>status_code = 503, content = None\<rparr>" plain_base vlan_a new_description ids30]
        bindings_send_once_without_retry
          [of silent_remote nb "''/api/ipam/vlans/1/''" "JObj []" "\<lparr>remote = (), sent = []\<rparr>"
              Timeout "\<lparr>status_code = 503, content = None\<rparr>" plain_base vlan_a new_description ids30]
  by (simp add: flaky_remote_def silent_remote_def)

text \<open>
  C3 (as stated) fails: the remote system is unavailable (503) for the first request
  and would accept the second. The update ends with the error after one request; sent
  again in the world it left, the same update succeeds.
\<close>

theorem transient_failure_not_retried:
  "update flaky_remote plain_base nb vlan_a new_description \<lparr>remote = 0, sent = []\<rparr> =
     (Inl (HTTPError 503),
      \<lparr>remote = 1,
       sent = [patch_request nb ''/api/ipam/vlans/1/'' (JObj [(''description'', JStr ''moved'')])]\<rparr>) \<and>
   fst (update flaky_remote plain_base nb vlan_a new_description
          \<lparr>remote = 1,
           sent = [patch_request nb ''/api/ipam/vlans/1/'' (JObj [(''description'', JStr ''moved'')])]\<rparr>) =
     Inr vlan_a"
  by (simp add: update_eq fixture_defs update_body_def str_pk_def outcome_def and_then_def
        patch_request_def Let_def)

subsection \<open>C4\<close>

text \<open>
  C4 (as the code has it). \<^verbatim>\<open>create\<close> drops the response of the POST: the object it
  returns is the one the base class builds from \<^verbatim>\<open>ids\<close> and \<^verbatim>\<open>attrs\<close>, whatever the remote
  system answered. \<^verbatim>\<open>update\<close> and \<^verbatim>\<open>delete\<close> address the remote record by the \<^verbatim>\<open>pk\<close> field
  of the object they are called on; no handle is cached anywhere.
\<close>

theorem created_object_ignores_response:
  "(create serve base diffsync ids attrs w = (Inr obj, w') \<longrightarrow>
      super_create base diffsync ids attrs = Inr obj) \<and>
   sent (snd (update serve base diffsync self changed w)) =
     sent w @ [patch_request diffsync (''/api/ipam/vlans/'' @ str_pk (pk self) @ ''/'')
                 (JObj (update_body changed))] \<and>
   sent (snd (delete_vlan serve base diffsync self w)) =
     sent w @ [delete_request diffsync (''/api/ipam/vlans/'' @ str_pk (pk self) @ ''/'')]"
  using create_result[of serve base diffsync ids attrs w obj w']
  by (simp add: update_sent delete_vlan_sent)

theorem created_object_ignores_response_witness:
  "create (creating_remote 42) plain_base nb ids30 attrs30 \<lparr>remote = (), sent = []\<rparr> =
     (Inr vlan30,
      \<lparr>remote = (),
       sent = [post_request nb ''/api/ipam/vlans/''
                 (JObj [(''vid'', JInt 30), (''name'', JStr ''guest''), (''status'', JStr ''active''),
                        (''group__name'', JNull), (''description'', JStr ''lobby'')])]\<rparr>) \<and>
   super_create plain_base nb ids30 attrs30 = Inr vlan30"
  using created_object_ignores_response
          [where serve = "creating_remote 42" and base = plain_base and diffsync = nb
             and ids = ids30 and attrs = attrs30 and w = "\<lparr>remote = (), sent = []\<rparr>"
             and obj = vlan30
             and w' = "\<lparr>remote = (),
                sent = [post_request nb ''/api/ipam/vlans/''
                 (JObj [(''vid'', JInt 30), (''name'', JStr ''guest''), (''status'', JStr ''active''),
                        (''group__name'', JNull), (''description'', JStr ''lobby'')])]\<rparr>"]
        create30
  by blast

text \<open>
  C4 (as stated) fails: the remote system answers the POST with the handle 42 (or 43);
  the created object is the same in both cases, and a later update or delete of that
  object goes to \<^verbatim>\<open>/api/ipam/vlans/None/\<close>, not to the handle the remote system returned.
\<close>

theorem remote_handle_not_reused:
  "fst (creating_remote 42 () (post_request nb ''/api/ipam/vlans/'' (JObj []))) =
     Inr \<lparr>status_code = 201, content = Some (JObj [(''id'', JInt 42), (''vid'', JInt 30)])\<rparr> \<and>
   fst (create (creating_remote 42) plain_base nb ids30 attrs30 \<lparr>remote = (), sent = []\<rparr>) =
     Inr vlan30 \<and>
   fst (create (creating_remote 43) plain_base nb ids30 attrs30 \<lparr>remote = (), sent = []\<rparr>) =
     Inr vlan30 \<and>
   map req_url
     (sent (snd (update (creating_remote 42) plain_base nb vlan30 new_description
                   \<lparr>remote = (), sent = []\<rparr>))) =
     [''https://nb/api/ipam/vlans/None/''] \<and>
   map req_url
     (sent (snd (delete_vlan (creating_remote 42) plain_base nb vlan30 \<lparr>remote = (), sent = []\<rparr>))) =
     [''https://nb/api/ipam/vlans/None/'']"
  by (simp add: create_eq create_body30 plain_create30 update_eq delete_vlan_eq creating_remote_def
        str_pk_def outcome_def and_then_def patch_request_def post_request_def
        delete_request_def Let_def nb_simps vlan30_def)

subsection \<open>C5\<close>

lemma url_scheme_append:
  "CHR '':'' \<in> set u \<Longrightarrow> url_scheme (u @ path) = url_scheme u"
  by (simp add: url_scheme_def takeWhile_append1)

lemma nb_scheme: "CHR '':'' \<in> set ''https://nb''"
  by simp

text \<open>
  C5 (as the code has it). Each of \<^verbatim>\<open>_get_api_data\<close>, \<^verbatim>\<open>post\<close>, \<^verbatim>\<open>patch\<close> and \<^verbatim>\<open>delete\<close>
  of the remote adapter sends one request. It carries the adapter's headers, which
  \<^verbatim>\<open>__init__\<close> builds with \<^verbatim>\<open>Authorization: Token <token>\<close> and which loading does not
  change. Its URL is the configured URL followed by the path, so its scheme is the
  scheme of the configured URL, whatever that is: nothing makes it \<^verbatim>\<open>https\<close>. And
  certificate verification is off in every one of the four requests, with nothing to
  configure.
\<close>

theorem requests_carry_token_unverified:
  "sent (snd (get_api_data serve self w)) = sent w @ [collection_request self] \<and>
   sent (snd (post serve self path data w)) = sent w @ [post_request self path data] \<and>
   sent (snd (patch serve self path data w)) = sent w @ [patch_request self path data] \<and>
   sent (snd (delete serve self path w)) = sent w @ [delete_request self path] \<and>
   req_headers (collection_request self) = headers self \<and>
   req_headers (post_request self path data) = headers self \<and>
   req_headers (patch_request self path data) = headers self \<and>
   req_headers (delete_request self path) = headers self \<and>
   \<not> req_verify (collection_request self) \<and>
   \<not> req_verify (post_request self path data) \<and>
   \<not> req_verify (patch_request self path data) \<and>
   \<not> req_verify (delete_request self path) \<and>
   map_of (headers (MySSoTRemoteAdapter u t)) ''Authorization'' = Some (''Token '' @ t) \<and>
   headers (self\<lparr>store := snap\<rparr>) = headers self \<and>
   url (MySSoTRemoteAdapter u t) = u \<and>
   req_url (collection_request self) = url self @ ''/api/ipam/vlans/'' \<and>
   req_url (post_request self path data) = url self @ path \<and>
   req_url (patch_request self path data) = url self @ path \<and>
   req_url (delete_request self path) = url self @ path \<and>
   (CHR '':'' \<in> set (url self) \<longrightarrow> url_scheme (url self @ path) = url_scheme (url self))"
  by (simp add: get_api_data_sent post_eq patch_eq delete_eq collection_request_def
        post_request_def patch_request_def delete_request_def MySSoTRemoteAdapter_def
        url_scheme_append)

theorem requests_carry_token_unverified_witness:
  "sent (snd (patch flaky_remote nb ''/api/ipam/vlans/1/'' (JObj []) \<lparr>remote = 0, sent = []\<rparr>)) =
     [patch_request nb ''/api/ipam/vlans/1/'' (JObj [])] \<and>
   req_headers (patch_request nb ''/api/ipam/vlans/1/'' (JObj [])) =
     [(''Authorization'', ''Token t0ken''), (''Accept'', ''application/json'')] \<and>
   \<not> req_verify (patch_request nb ''/api/ipam/vlans/1/'' (JObj [])) \<and>
   map_of (headers (MySSoTRemoteAdapter ''https://nb'' ''t0ken'')) ''Authorization'' =
     Some ''Token t0ken'' \<and>
   req_url (patch_request nb ''/api/ipam/vlans/1/'' (JObj [])) = ''https://nb/api/ipam/vlans/1/'' \<and>
   CHR '':'' \<in> set ''https://nb'' \<and>
   url_scheme (''https://nb'' @ ''/api/ipam/vlans/1/'') = url_scheme ''https://nb''"
proof -
  note t = requests_carry_token_unverified
          [where serve = flaky_remote and self = nb and w = "\<lparr>remote = 0, sent = []\<rparr>"
             and path = "''/api/ipam/vlans/1/''" and data = "JObj []"
             and u = "''https://nb''" and t = "''t0ken''" and snap = "[]"]
  from t have a:
    "sent (snd (patch flaky_remote nb ''/api/ipam/vlans/1/'' (JObj []) \<lparr>remote = 0, sent = []\<rparr>)) =
       [patch_request nb ''/api/ipam/vlans/1/'' (JObj [])]"
    "req_headers (patch_request nb ''/api/ipam/vlans/1/'' (JObj [])) =
       [(''Authorization'', ''Token t0ken''), (''Accept'', ''application/json'')]"
    "\<not> req_verify (patch_request nb ''/api/ipam/vlans/1/'' (JObj []))"
    "map_of (headers (MySSoTRemoteAdapter ''https://nb'' ''t0ken'')) ''Authorization'' =
       Some ''Token t0ken''"
    "req_url (patch_request nb ''/api/ipam/vlans/1/'' (JObj [])) = ''https://nb/api/ipam/vlans/1/''"
    by (simp_all add: nb_simps)
  from t have
    "CHR '':'' \<in> set (url nb) \<longrightarrow>
       url_scheme (url nb @ ''/api/ipam/vlans/1/'') = url_scheme (url nb)"
    by (elim conjE)
  then have
    imp: "CHR '':'' \<in> set ''https://nb'' \<longrightarrow>
       url_scheme (''https://nb'' @ ''/api/ipam/vlans/1/'') = url_scheme ''https://nb''"
    by (simp only: nb_simps)
  from imp nb_scheme
  have b: "url_scheme (''https://nb'' @ ''/api/ipam/vlans/1/'') = url_scheme ''https://nb''"
    by (rule mp)
  from a nb_scheme b show ?thesis
    by (intro conjI)
qed

text \<open>
  C5 (as stated) fails on both counts. In runs where the adapter is given a URL and a
  token and nothing else, the requests of \<^verbatim>\<open>load\<close>, \<^verbatim>\<open>create\<close>, \<^verbatim>\<open>update\<close> and \<^verbatim>\<open>delete\<close>
  are all sent with verification disabled. And an adapter that is given an \<^verbatim>\<open>http\<close> URL
  sends its requests, token included, to that URL: not over TLS.
\<close>

theorem unverified_and_plain_http_requests:
  "map req_verify
     (sent (snd (load two_page_remote strict identity_key nb \<lparr>remote = (), sent = []\<rparr>))) =
     [False] \<and>
   map req_verify
     (sent (snd (create (creating_remote 42) plain_base nb ids30 attrs30 \<lparr>remote = (), sent = []\<rparr>))) =
     [False] \<and>
   map req_verify
     (sent (snd (update (creating_remote 42) plain_base nb vlan_a new_description \<lparr>remote = (), sent = []\<rparr>))) =
     [False] \<and>
   map req_verify
     (sent (snd (delete_vlan (creating_remote 42) plain_base nb vlan_a \<lparr>remote = (), sent = []\<rparr>))) =
     [False] \<and>
   map (\<lambda>r. (url_scheme (req_url r), req_url r, map_of (req_headers r) ''Authorization''))
     (sent (snd (load two_page_remote strict identity_key nb_plain \<lparr>remote = (), sent = []\<rparr>))) =
     [(''http'', ''http://nb/api/ipam/vlans/'', Some ''Token t0ken'')] \<and>
   map (\<lambda>r. url_scheme (req_url r))
     (sent (snd (update (creating_remote 42) plain_base nb_plain vlan_a new_description
                   \<lparr>remote = (), sent = []\<rparr>))) =
     [''http'']"
  by (simp add: load_two_page_remote load_sent collection_request_def create_sent create_body30
        update_sent delete_vlan_sent post_request_def patch_request_def delete_request_def
        nb_plain_def MySSoTRemoteAdapter_def url_scheme_def)

subsection \<open>C7\<close>

text \<open>
  C7. The body of the PATCH that \<^verbatim>\<open>update\<close> sends is \<open>update_body attrs\<close>, where
  \<^verbatim>\<open>attrs\<close> holds the attributes reported as changed: it has, under its wire name and
  with its value, each declared attribute that \<^verbatim>\<open>attrs\<close> holds and nothing else; no
  identifier field (under its model name or its wire name) is a key of it, and an
  attribute that \<^verbatim>\<open>attrs\<close> does not hold (an unchanged one) is not a key of it.
\<close>

theorem update_sends_changed_attributes_only:
  "map req_json (sent (snd (update serve base diffsync self attrs w))) =
     map req_json (sent w) @ [Some (JObj (update_body attrs))] \<and>
   update_body attrs =
     List.map_filter (\<lambda>a. case attrs a of None \<Rightarrow> None | Some v \<Rightarrow> Some (wire_name a, v))
       attributes \<and>
   set (map fst (update_body attrs)) \<inter> (set identifiers \<union> set (map wire_name identifiers)) = {} \<and>
   (a \<in> set attributes \<and> attrs a = None \<longrightarrow> wire_name a \<notin> set (map fst (update_body attrs)))"
proof (intro conjI impI)
  show "map req_json (sent (snd (update serve base diffsync self attrs w))) =
          map req_json (sent w) @ [Some (JObj (update_body attrs))]"
    by (rule update_json_sent)
  show "update_body attrs =
          List.map_filter (\<lambda>a. case attrs a of None \<Rightarrow> None | Some v \<Rightarrow> Some (wire_name a, v))
            attributes"
    by (rule update_body_changed)
  show "set (map fst (update_body attrs)) \<inter> (set identifiers \<union> set (map wire_name identifiers)) = {}"
    by (rule update_body_no_identifier)
  show "wire_name a \<notin> set (map fst (update_body attrs))"
    if "a \<in> set attributes \<and> attrs a = None"
    using that update_body_unchanged[of a attrs] by (elim conjE)
qed

theorem update_sends_changed_attributes_only_witness:
  "(''status__name'' \<in> set attributes \<and> new_description ''status__name'' = None) \<and>
   wire_name ''status__name'' \<notin> set (map fst (update_body new_description)) \<and>
   map req_json (sent (snd (update strict_remote plain_base nb vlan_b new_description
                              \<lparr>remote = [] :: request list, sent = []\<rparr>))) =
     map req_json (sent \<lparr>remote = [] :: request list, sent = []\<rparr>) @ [Some (JObj (update_body new_description))]"
proof -
  note t = update_sends_changed_attributes_only
          [where serve = strict_remote and base = plain_base and diffsync = nb and self = vlan_b
             and attrs = new_description and w = "\<lparr>remote = [] :: request list, sent = []\<rparr>"
             and a = "''status__name''"]
  from t[THEN conjunct1] have sent_once: "map req_json (sent (snd (update strict_remote plain_base nb vlan_b new_description
                              \<lparr>remote = [] :: request list, sent = []\<rparr>))) =
     map req_json (sent \<lparr>remote = [] :: request list, sent = []\<rparr>) @ [Some (JObj (update_body new_description))]"
    .
  from t[THEN conjunct2, THEN conjunct2, THEN conjunct2] have imp: "''status__name'' \<in> set attributes \<and> new_description ''status__name'' = None \<longrightarrow>
      wire_name ''status__name'' \<notin> set (map fst (update_body new_description))"
    .
  from imp status_not_changed
  have absent: "wire_name ''status__name'' \<notin> set (map fst (update_body new_description))"
    by (rule mp)
  from status_not_changed absent sent_once show ?thesis
    by (elim conjE, intro conjI)
qed

subsection \<open>What load resolves\<close>

lemma typed_fields:
  "int_field vd (JInt i) = Inr i" "str_field vd (JStr s) = Inr s"
  "optional_str_field vd JNull = Inr None" "optional_str_field vd (JStr s) = Inr (Some s)"
  by (simp_all add: int_field_def str_field_def optional_str_field_def and_then_def)

lemma VLANRemoteModel_Inr:
  assumes "VLANRemoteModel vd v n s g d = Inr obj"
  shows "\<exists>vi ns ss gs ds.
           int_field vd v = Inr vi \<and> str_field vd n = Inr ns \<and> str_field vd s = Inr ss \<and>
           optional_str_field vd g = Inr gs \<and> optional_str_field vd d = Inr ds \<and>
           obj = \<lparr>vid = vi, name = ns, status__name = ss, vlan_group__name = gs,
                  description = ds, pk = None\<rparr>"
  using assms unfolding VLANRemoteModel_def
  by (auto dest!: and_then_Inr)

lemma VLANRemoteModel_status:
  "VLANRemoteModel vd v n (JStr s) g d = Inr obj \<Longrightarrow> status__name obj = s"
  by (auto dest!: VLANRemoteModel_Inr simp: typed_fields)

lemma VLANRemoteModel_group:
  "VLANRemoteModel vd v n s JNull d = Inr obj \<Longrightarrow> vlan_group__name obj = None"
  by (auto dest!: VLANRemoteModel_Inr simp: typed_fields)

lemma loaded_vlan_status:
  assumes "loaded_vlan vd item = Inr obj"
  shows "status__name obj = ''active''"
proof -
  from assms obtain v n g d where "VLANRemoteModel vd v n (JStr ''active'') g d = Inr obj"
    unfolding loaded_vlan_def by (auto dest!: and_then_Inr)
  then show ?thesis by (rule VLANRemoteModel_status)
qed

lemma loaded_vlan_ignores_status:
  "loaded_vlan vd (JObj ((''status'', s) # kvs)) = loaded_vlan vd (JObj ((''status'', s') # kvs))"
  by (simp add: loaded_vlan_def cong: if_cong)

lemma load_status:
  assumes "load serve vd unique_id self w = (Inr self', w')"
  shows "\<forall>obj \<in> set (drop (length (store self)) (store self')). status__name obj = ''active''"
proof -
  from load_store_grows[OF assms] obtain items objs where
    m: "map (loaded_vlan vd) items = map Inr objs"
    and s: "self' = self\<lparr>store := store self @ objs\<rparr>"
    by blast
  have "\<forall>obj \<in> set objs. status__name obj = ''active''"
  proof
    fix obj assume "obj \<in> set objs"
    then obtain i where i: "i < length objs" "objs ! i = obj"
      by (auto simp: in_set_conv_nth)
    from m have len: "length items = length objs"
      by (metis length_map)
    from m i len have "loaded_vlan vd (items ! i) = Inr obj"
      by (metis nth_map)
    then show "status__name obj = ''active''" by (rule loaded_vlan_status)
  qed
  with s show ?thesis by simp
qed

lemma create_body_status:
  assumes "create_body ids attrs = Inr body"
  shows "\<exists>s. attrs ''status__name'' = Some (JStr s) \<and>
             subscript body ''status'' = Inr (JStr (map lower_char s))"
proof -
  from assms[unfolded create_body_def] obtain v where
    1: "and_then (dict_item ids ''name'') (\<lambda>n.
        and_then (and_then (dict_item attrs ''status__name'') str_lower) (\<lambda>s.
        and_then (dict_item attrs ''description'') (\<lambda>d.
        Inr (JObj [(''vid'', v), (''name'', n), (''status'', s),
                (''group__name'', dict_get_default attrs ''vlan_group__name'' JNull),
                (''description'', d)])))) = Inr body"
    by (blast dest: and_then_Inr)
  from 1 obtain n where
    2: "and_then (and_then (dict_item attrs ''status__name'') str_lower) (\<lambda>s.
        and_then (dict_item attrs ''description'') (\<lambda>d.
        Inr (JObj [(''vid'', v), (''name'', n), (''status'', s),
                (''group__name'', dict_get_default attrs ''vlan_group__name'' JNull),
                (''description'', d)]))) = Inr body"
    by (blast dest: and_then_Inr)
  from 2 obtain sl where
    sl: "and_then (dict_item attrs ''status__name'') str_lower = Inr sl"
    and 3: "and_then (dict_item attrs ''description'') (\<lambda>d.
        Inr (JObj [(''vid'', v), (''name'', n), (''status'', sl),
                (''group__name'', dict_get_default attrs ''vlan_group__name'' JNull),
                (''description'', d)])) = Inr body"
    by (blast dest: and_then_Inr)
  from 3 obtain d where
    b: "body = JObj [(''vid'', v), (''name'', n), (''status'', sl),
                (''group__name'', dict_get_default attrs ''vlan_group__name'' JNull),
                (''description'', d)]"
    by (auto dest: and_then_Inr)
  from sl obtain x where x: "dict_item attrs ''status__name'' = Inr x" "str_lower x = Inr sl"
    by (blast dest: and_then_Inr)
  from x(2) obtain s where s: "x = JStr s" "sl = JStr (map lower_char s)"
    by (cases x) auto
  from x(1) s(1) have "attrs ''status__name'' = Some (JStr s)"
    by (auto simp: dict_item_def split: option.splits)
  with b s(2) show ?thesis by simp
qed

lemma update_body_status:
  "attrs ''status__name'' = Some v \<Longrightarrow> map_of (update_body attrs) ''status'' = Some v"
  by (simp add: update_body_def split: option.splits)

lemma loaded_vlan_falsy_group:
  assumes "dict_get item ''group'' = Inr g" and "\<not> truthy g" and "loaded_vlan vd item = Inr obj"
  shows "vlan_group__name obj = None"
proof -
  from assms obtain v n d where "VLANRemoteModel vd v n (JStr ''active'') JNull d = Inr obj"
    unfolding loaded_vlan_def by (auto dest!: and_then_Inr)
  then show ?thesis by (rule VLANRemoteModel_group)
qed

lemma loaded_vlan_without_group:
  assumes "map_of kvs ''vid'' = Some (JInt v)" and "map_of kvs ''name'' = Some (JStr n)"
    and "map_of kvs ''description'' = Some d" and "d = JNull \<or> (\<exists>ds. d = JStr ds)"
    and "map_of kvs ''group'' = None \<or> map_of kvs ''group'' = Some JNull"
  shows "\<exists>obj. loaded_vlan vd (JObj kvs) = Inr obj \<and> vlan_group__name obj = None"
  using assms by (auto simp: loaded_vlan_def and_then_def VLANRemoteModel_def typed_fields)

lemma source_loaded_vlan_without_group:
  "api_group vlan = None \<Longrightarrow> group__name (source_loaded_vlan vlan) = None"
  by (simp add: source_loaded_vlan_def)

lemma item10_loaded:
  "loaded_vlan strict (remote_item 1 10 ''users'' JNull (JStr ''floor 1'')) = Inr vlan10"
  by (simp add: loaded_vlan_def remote_item_def and_then_def VLANRemoteModel_def vlan10_def
        typed_fields)

lemma item10_group:
  "dict_get (remote_item 1 10 ''users'' JNull (JStr ''floor 1'')) ''group'' = Inr JNull \<and>
   \<not> truthy JNull"
  by (simp add: remote_item_def)

lemma status_change_holds: "status_change ''status__name'' = Some (JStr ''Reserved'')"
  by (simp add: status_change_def)

lemma api_vlan10_group: "api_group api_vlan10 = None"
  by (simp add: api_vlan10_def)

lemma lower_capital_letters: "map lower_char capital_letters = small_letters"
  by code_simp

lemma lower_changes_capitals_only:
  "c \<notin> set capital_letters \<Longrightarrow> lower_char c = c"
proof -
  assume "c \<notin> set capital_letters"
  moreover have "length capital_letters = length small_letters"
    by (simp add: capital_letters_def small_letters_def)
  ultimately have "map_of (zip capital_letters small_letters) c = None"
    by (simp add: map_of_zip_is_None)
  then show ?thesis
    by (simp add: lower_char_def)
qed

lemma small_t: "CHR ''t'' \<notin> set capital_letters"
  by (simp add: capital_letters_def)

lemma create_body_latin:
  "create_body ids30 attrs_latin =
     Inr (JObj [(''vid'', JInt 30), (''name'', JStr ''guest''),
                (''status'', JStr [CHR 0xE9, CHR ''t'', CHR ''e'']),
                (''group__name'', JNull), (''description'', JNull)])"
  by code_simp

subsection \<open>C9\<close>

text \<open>
  C9. Every record that the remote adapter of the data-target job loads has
  \<^verbatim>\<open>status__name\<close> equal to \<^verbatim>\<open>"active"\<close>: the status entry of the remote item is not read,
  so two items that differ in it alone load alike. On \<^verbatim>\<open>create\<close> the status in the body
  of the POST is the \<^verbatim>\<open>status__name\<close> of \<^verbatim>\<open>attrs\<close> in lower case; on \<^verbatim>\<open>update\<close> the status
  in the body of the PATCH is the \<^verbatim>\<open>status__name\<close> of \<^verbatim>\<open>attrs\<close> as it is. Lower case means:
  each capital letter (\<^verbatim>\<open>A\<close> to \<^verbatim>\<open>Z\<close> and the Latin-1 capitals) is replaced by its small
  letter, and every other character stays as it is.
\<close>

theorem status_fixed_on_load_lowered_on_create:
  "(loaded_vlan vd item = Inr obj \<longrightarrow> status__name obj = ''active'') \<and>
   loaded_vlan vd (JObj ((''status'', s) # kvs)) = loaded_vlan vd (JObj ((''status'', s') # kvs)) \<and>
   (load serve vd unique_id self w = (Inr self', w') \<longrightarrow>
      (\<forall>obj \<in> set (drop (length (store self)) (store self')). status__name obj = ''active'')) \<and>
   (create_body ids attrs = Inr body \<longrightarrow>
      (\<exists>st. attrs ''status__name'' = Some (JStr st) \<and>
            subscript body ''status'' = Inr (JStr (map lower_char st))) \<and>
      sent (snd (create serve base self ids attrs w)) =
        sent w @ [post_request self ''/api/ipam/vlans/'' body]) \<and>
   (changed ''status__name'' = Some v \<longrightarrow>
      map_of (update_body changed) ''status'' = Some v \<and>
      map req_json (sent (snd (update serve base self obj changed w))) =
        map req_json (sent w) @ [Some (JObj (update_body changed))]) \<and>
   map lower_char capital_letters = small_letters \<and>
   (c \<notin> set capital_letters \<longrightarrow> lower_char c = c)"
proof (intro conjI impI)
  show "map lower_char capital_letters = small_letters"
    by (rule lower_capital_letters)
  show "lower_char c = c" if "c \<notin> set capital_letters"
    using that by (rule lower_changes_capitals_only)
  show "status__name obj = ''active''" if "loaded_vlan vd item = Inr obj"
    using that by (rule loaded_vlan_status)
  show "loaded_vlan vd (JObj ((''status'', s) # kvs)) = loaded_vlan vd (JObj ((''status'', s') # kvs))"
    by (rule loaded_vlan_ignores_status)
  show "\<forall>obj \<in> set (drop (length (store self)) (store self')). status__name obj = ''active''"
    if "load serve vd unique_id self w = (Inr self', w')"
    using that by (rule load_status)
  show "\<exists>st. attrs ''status__name'' = Some (JStr st) \<and>
             subscript body ''status'' = Inr (JStr (map lower_char st))"
    if "create_body ids attrs = Inr body"
    using that by (rule create_body_status)
  show "sent (snd (create serve base self ids attrs w)) =
          sent w @ [post_request self ''/api/ipam/vlans/'' body]"
    if "create_body ids attrs = Inr body"
    using that by (simp add: create_sent)
  show "map_of (update_body changed) ''status'' = Some v" if "changed ''status__name'' = Some v"
    using that by (rule update_body_status)
  show "map req_json (sent (snd (update serve base self obj changed w))) =
          map req_json (sent w) @ [Some (JObj (update_body changed))]"
    by (rule update_json_sent)
qed

theorem status_fixed_on_load_lowered_on_create_witness:
  "loaded_vlan strict (remote_item 1 10 ''users'' JNull (JStr ''floor 1'')) = Inr vlan10 \<and>
   status__name vlan10 = ''active'' \<and>
   load two_page_remote strict identity_key nb \<lparr>remote = (), sent = []\<rparr> =
     (Inr (nb\<lparr>store := [vlan10]\<rparr>),
      \<lparr>remote = (), sent = [collection_request nb]\<rparr>) \<and>
   set (map status__name
          (drop (length (store nb)) (store (nb\<lparr>store := [vlan10]\<rparr>)))) \<subseteq>
     {''active''} \<and>
   create_body ids30 attrs30 =
     Inr (JObj [(''vid'', JInt 30), (''name'', JStr ''guest''), (''status'', JStr ''active''),
                (''group__name'', JNull), (''description'', JStr ''lobby'')]) \<and>
   (\<exists>st. attrs30 ''status__name'' = Some (JStr st) \<and>
         subscript (JObj [(''vid'', JInt 30), (''name'', JStr ''guest''), (''status'', JStr ''active''),
                          (''group__name'', JNull), (''description'', JStr ''lobby'')]) ''status'' =
           Inr (JStr (map lower_char st))) \<and>
   status_change ''status__name'' = Some (JStr ''Reserved'') \<and>
   map_of (update_body status_change) ''status'' = Some (JStr ''Reserved'') \<and>
   create_body ids30 attrs_latin =
     Inr (JObj [(''vid'', JInt 30), (''name'', JStr ''guest''),
                (''status'', JStr [CHR 0xE9, CHR ''t'', CHR ''e'']),
                (''group__name'', JNull), (''description'', JNull)]) \<and>
   (\<exists>st. attrs_latin ''status__name'' = Some (JStr st) \<and>
         subscript (JObj [(''vid'', JInt 30), (''name'', JStr ''guest''),
                          (''status'', JStr [CHR 0xE9, CHR ''t'', CHR ''e'']),
                          (''group__name'', JNull), (''description'', JNull)]) ''status'' =
           Inr (JStr (map lower_char st))) \<and>
   map lower_char capital_letters = small_letters \<and>
   CHR ''t'' \<notin> set capital_letters \<and>
   lower_char (CHR ''t'') = CHR ''t''"
proof -
  note u = status_fixed_on_load_lowered_on_create
    [where ids = ids30 and attrs = attrs_latin and serve = two_page_remote and self = nb
       and w = "\<lparr>remote = (), sent = []\<rparr>"
       and body = "JObj [(''vid'', JInt 30), (''name'', JStr ''guest''),
                (''status'', JStr [CHR 0xE9, CHR ''t'', CHR ''e'']),
                (''group__name'', JNull), (''description'', JNull)]"
       and c = "CHR ''t''"]
  from u[THEN conjunct2, THEN conjunct2, THEN conjunct2, THEN conjunct2, THEN conjunct2, THEN conjunct2]
    small_t
  have other: "lower_char (CHR ''t'') = CHR ''t''"
    by (rule mp)
  from u[THEN conjunct2, THEN conjunct2, THEN conjunct2, THEN conjunct1] create_body_latin
  have "(\<exists>st. attrs_latin ''status__name'' = Some (JStr st) \<and>
         subscript (JObj [(''vid'', JInt 30), (''name'', JStr ''guest''),
                          (''status'', JStr [CHR 0xE9, CHR ''t'', CHR ''e'']),
                          (''group__name'', JNull), (''description'', JNull)]) ''status'' =
           Inr (JStr (map lower_char st))) \<and>
        sent (snd (create two_page_remote base nb ids30 attrs_latin \<lparr>remote = (), sent = []\<rparr>)) =
        sent \<lparr>remote = (), sent = []\<rparr> @ [post_request nb ''/api/ipam/vlans/''
           (JObj [(''vid'', JInt 30), (''name'', JStr ''guest''),
                (''status'', JStr [CHR 0xE9, CHR ''t'', CHR ''e'']),
                (''group__name'', JNull), (''description'', JNull)])]"
    by (rule mp)
  then have latin: "\<exists>st. attrs_latin ''status__name'' = Some (JStr st) \<and>
         subscript (JObj [(''vid'', JInt 30), (''name'', JStr ''guest''),
                          (''status'', JStr [CHR 0xE9, CHR ''t'', CHR ''e'']),
                          (''group__name'', JNull), (''description'', JNull)]) ''status'' =
           Inr (JStr (map lower_char st))"
    by (rule conjunct1)
  from u[THEN conjunct2, THEN conjunct2, THEN conjunct2, THEN conjunct2, THEN conjunct2, THEN conjunct1]
  have table: "map lower_char capital_letters = small_letters" .
  note t = status_fixed_on_load_lowered_on_create
    [where item = "remote_item 1 10 ''users'' JNull (JStr ''floor 1'')" and obj = vlan10
       and serve = two_page_remote and self = nb and w = "\<lparr>remote = (), sent = []\<rparr>"
       and self' = "nb\<lparr>store := [vlan10]\<rparr>"
       and w' = "\<lparr>remote = (), sent = [collection_request nb]\<rparr>"
       and ids = ids30 and attrs = attrs30
       and body = "JObj [(''vid'', JInt 30), (''name'', JStr ''guest''), (''status'', JStr ''active''),
                (''group__name'', JNull), (''description'', JStr ''lobby'')]"
       and changed = status_change and v = "JStr ''Reserved''"
       and vd = strict and unique_id = identity_key]
  from t[THEN conjunct1] item10_loaded
  have a: "status__name vlan10 = ''active''" by (rule mp)
  from t[THEN conjunct2, THEN conjunct2, THEN conjunct1] load_two_page_remote
  have "\<forall>obj \<in> set (drop (length (store nb)) (store (nb\<lparr>store := [vlan10]\<rparr>))).
          status__name obj = ''active''"
    by (rule mp)
  then have l: "set (map status__name
          (drop (length (store nb)) (store (nb\<lparr>store := [vlan10]\<rparr>)))) \<subseteq>
     {''active''}"
    by auto
  from t[THEN conjunct2, THEN conjunct2, THEN conjunct2, THEN conjunct1] create_body30
  have "(\<exists>st. attrs30 ''status__name'' = Some (JStr st) \<and>
         subscript (JObj [(''vid'', JInt 30), (''name'', JStr ''guest''), (''status'', JStr ''active''),
                          (''group__name'', JNull), (''description'', JStr ''lobby'')]) ''status'' =
           Inr (JStr (map lower_char st))) \<and>
        sent (snd (create two_page_remote base nb ids30 attrs30 \<lparr>remote = (), sent = []\<rparr>)) =
        sent \<lparr>remote = (), sent = []\<rparr> @ [post_request nb ''/api/ipam/vlans/''
           (JObj [(''vid'', JInt 30), (''name'', JStr ''guest''), (''status'', JStr ''active''),
                          (''group__name'', JNull), (''description'', JStr ''lobby'')])]"
    by (rule mp)
  then have b: "\<exists>st. attrs30 ''status__name'' = Some (JStr st) \<and>
         subscript (JObj [(''vid'', JInt 30), (''name'', JStr ''guest''), (''status'', JStr ''active''),
                          (''group__name'', JNull), (''description'', JStr ''lobby'')]) ''status'' =
           Inr (JStr (map lower_char st))"
    by (rule conjunct1)
  from t[THEN conjunct2, THEN conjunct2, THEN conjunct2, THEN conjunct2, THEN conjunct1]
    status_change_holds
  have "map_of (update_body status_change) ''status'' = Some (JStr ''Reserved'') \<and>
      map req_json (sent (snd (update two_page_remote base nb vlan10 status_change \<lparr>remote = (), sent = []\<rparr>))) =
        map req_json (sent \<lparr>remote = (), sent = []\<rparr>) @ [Some (JObj (update_body status_change))]"
    by (rule mp)
  then have c: "map_of (update_body status_change) ''status'' = Some (JStr ''Reserved'')"
    by (rule conjunct1)
  from item10_loaded a load_two_page_remote l create_body30 b status_change_holds c
    create_body_latin latin table small_t other
  show ?thesis
    by (intro conjI)
qed

subsection \<open>The steps of the collector\<close>

lemma db_print_status [simp]: "db (print_status status msg st) = db st"
  by (simp add: print_status_def)

lemma OnboardVersion_state:
  "snd (OnboardVersion env dev st) =
     print_status ''info'' (SupportedPlatforms supported_drivers) st"
  by (simp add: OnboardVersion_def Let_def split: option.splits)

lemma OnboardVersion_result:
  "fst (OnboardVersion env dev st) = fst (OnboardVersion env dev st')"
  by (simp add: OnboardVersion_def Let_def split: option.splits)

lemma get_version_state:
  "db (snd (get_version env self st)) = db st"
  by (simp add: get_version_def Let_def split: option.splits)

lemma get_version_result:
  "fst (get_version env self st) = fst (get_version env self st')"
  by (simp add: get_version_def Let_def split: option.splits)

lemma parse_version_state:
  "db (snd (parse_version self st)) = db st"
  by (simp add: parse_version_def split: option.splits)

lemma parse_version_result:
  "fst (parse_version self st) = fst (parse_version self st')"
  by (simp add: parse_version_def split: option.splits)

lemma objects_get_Inr:
  "objects_get cond rows = Inr r \<longleftrightarrow> filter cond rows = [r]"
  by (auto simp: objects_get_def split: list.splits)

lemma import_unique:
  assumes "import_to_nautobot env self st = (Inr self', st')"
  shows "\<exists>v sw. parsed_version self = Some v \<and> self' = self\<lparr>nautobot_software := Some sw\<rparr> \<and>
                filter (\<lambda>s. version s = v) (software (db st')) = [sw] \<and>
                relationships (db st') = relationships (db st) \<and>
                associations (db st') = associations (db st)"
proof -
  from assms obtain v where v: "parsed_version self = Some v"
    by (cases "parsed_version self") (auto simp: import_to_nautobot_def)
  show ?thesis
  proof (cases "filter (\<lambda>sw. version sw = v) (software (db st)) = []")
    case False
    with assms v obtain sw where
      g: "objects_get (\<lambda>sw. version sw = v) (software (db st)) = Inr sw"
      and r: "self' = self\<lparr>nautobot_software := Some sw\<rparr>"
             "st' = print_status ''info'' (SoftwareExists sw) st"
      by (auto simp: import_to_nautobot_def split: sum.splits)
    from g have "filter (\<lambda>s. version s = v) (software (db st)) = [sw]"
      by (simp add: objects_get_Inr)
    with v r show ?thesis by simp
  next
    case True
    with assms v show ?thesis
      by (auto simp: import_to_nautobot_def Let_def split: if_splits)
  qed
qed

lemma import_reuse:
  assumes "parsed_version self = Some v"
    and "filter (\<lambda>s. version s = v) (software (db st)) = [sw]"
  shows "import_to_nautobot env self st =
           (Inr (self\<lparr>nautobot_software := Some sw\<rparr>),
            print_status ''info'' (SoftwareExists sw) st)"
  using assms by (simp add: import_to_nautobot_def objects_get_def)

lemma import_existing:
  assumes "parsed_version self = Some v"
    and "filter (\<lambda>s. version s = v) (software (db st)) \<noteq> []"
    and "import_to_nautobot env self st = (Inr self', st')"
  shows "db st' = db st \<and>
         (\<exists>sw \<in> set (software (db st)). version sw = v \<and> nautobot_software self' = Some sw)"
proof -
  from assms obtain sw where
    g: "objects_get (\<lambda>sw. version sw = v) (software (db st)) = Inr sw"
    and r: "self' = self\<lparr>nautobot_software := Some sw\<rparr>"
           "st' = print_status ''info'' (SoftwareExists sw) st"
    by (auto simp: import_to_nautobot_def split: sum.splits)
  from g have f: "filter (\<lambda>s. version s = v) (software (db st)) = [sw]"
    by (simp add: objects_get_Inr)
  then have "sw \<in> set (filter (\<lambda>s. version s = v) (software (db st)))" by simp
  then have "sw \<in> set (software (db st)) \<and> version sw = v" by simp
  with r show ?thesis by auto
qed

lemma same_relationship_fun:
  "same_relationship rel sw dev =
     (\<lambda>a. relationship_id a = rel_id rel \<and> source_id a = sw_id sw \<and> destination_id a = dev_id dev)"
  by (rule ext) (simp add: same_relationship_def)

lemma assign_existing:
  assumes "objects_get (\<lambda>r. label r = ''Software on Device'') (relationships (db st)) = Inr rel"
    and "nautobot_software self = Some sw"
    and "filter (same_relationship rel sw (device self)) (associations (db st)) \<noteq> []"
  shows "assign_to_device env self st =
           (Inr self, print_status ''info'' (RelationshipExists (device self) sw) st)"
  using assms by (simp add: assign_to_device_def same_relationship_fun)

lemma assign_success:
  assumes "assign_to_device env self st = (Inr self', st')"
  shows "self' = self \<and> software (db st') = software (db st) \<and>
         relationships (db st') = relationships (db st) \<and>
         (\<exists>rel sw. objects_get (\<lambda>r. label r = ''Software on Device'') (relationships (db st)) = Inr rel \<and>
                   nautobot_software self = Some sw \<and>
                   filter (same_relationship rel sw (device self)) (associations (db st')) \<noteq> [])"
proof -
  from assms obtain rel where
    rel: "objects_get (\<lambda>r. label r = ''Software on Device'') (relationships (db st)) = Inr rel"
    by (auto simp: assign_to_device_def split: sum.splits)
  from assms rel obtain sw where sw: "nautobot_software self = Some sw"
    by (cases "nautobot_software self") (auto simp: assign_to_device_def)
  show ?thesis
  proof (cases "filter (same_relationship rel sw (device self)) (associations (db st)) = []")
    case False
    from assign_existing[OF rel sw False, of env] assms rel sw False show ?thesis
      by auto
  next
    case True
    with assms rel sw show ?thesis
      by (auto simp: assign_to_device_def same_relationship_fun Let_def
               split: sum.splits if_splits)
  qed
qed

lemma assign_creates_only_when_absent:
  assumes "assign_to_device env self st = (Inr self', st')"
    and "associations (db st') \<noteq> associations (db st)"
  shows "\<exists>rel sw created.
           objects_get (\<lambda>r. label r = ''Software on Device'') (relationships (db st)) = Inr rel \<and>
           nautobot_software self = Some sw \<and>
           filter (same_relationship rel sw (device self)) (associations (db st)) = [] \<and>
           same_relationship rel sw (device self) created \<and>
           associations (db st') = associations (db st) @ [created]"
proof -
  from assms(1) obtain rel where
    rel: "objects_get (\<lambda>r. label r = ''Software on Device'') (relationships (db st)) = Inr rel"
    by (auto simp: assign_to_device_def split: sum.splits)
  from assms(1) rel obtain sw where sw: "nautobot_software self = Some sw"
    by (cases "nautobot_software self") (auto simp: assign_to_device_def)
  have none: "filter (same_relationship rel sw (device self)) (associations (db st)) = []"
  proof (rule ccontr)
    assume "filter (same_relationship rel sw (device self)) (associations (db st)) \<noteq> []"
    from assign_existing[OF rel sw this, of env] assms show False by simp
  qed
  with assms(1) rel sw show ?thesis
    by (auto simp: assign_to_device_def same_relationship_fun Let_def
             split: sum.splits if_splits)
qed

lemma import_existing_db:
  assumes "parsed_version self = Some v"
    and "filter (\<lambda>s. version s = v) (software (db st)) \<noteq> []"
    and "import_to_nautobot env self st = (r, st')"
  shows "db st' = db st"
  using assms by (auto simp: import_to_nautobot_def split: sum.splits)

lemma execute_Inr:
  assumes "execute env task st = (Inr task', st')"
  shows "\<exists>t1 s1 t2 s2 t3 s3.
           get_version env task st = (Inr t1, s1) \<and> parse_version t1 s1 = (Inr t2, s2) \<and>
           import_to_nautobot env t2 s2 = (Inr t3, s3) \<and>
           assign_to_device env t3 s3 = (Inr task', st')"
proof -
  from assms[unfolded execute_def] obtain t1 s1 where
    1: "get_version env task st = (Inr t1, s1)"
    and r1: "and_then_in (parse_version t1 s1) (\<lambda>self2 st2.
               and_then_in (import_to_nautobot env self2 st2) (\<lambda>self3 st3.
               assign_to_device env self3 st3)) = (Inr task', st')"
    by (blast dest: and_then_in_Inr)
  from r1 obtain t2 s2 where
    2: "parse_version t1 s1 = (Inr t2, s2)"
    and r2: "and_then_in (import_to_nautobot env t2 s2) (\<lambda>self3 st3.
               assign_to_device env self3 st3) = (Inr task', st')"
    by (blast dest: and_then_in_Inr)
  from r2 obtain t3 s3 where
    3: "import_to_nautobot env t2 s2 = (Inr t3, s3)"
    and 4: "assign_to_device env t3 s3 = (Inr task', st')"
    by (blast dest: and_then_in_Inr)
  from 1 2 3 4 show ?thesis by blast
qed

lemma execute_twice:
  assumes "execute env task st = (Inr task', st1)" and "db st2 = db st1"
  shows "\<exists>st3. execute env task st2 = (Inr task', st3) \<and> db st3 = db st1"
proof -
  from execute_Inr[OF assms(1)] obtain t1 s1 t2 s2 t3 s3 where
    g: "get_version env task st = (Inr t1, s1)"
    and p: "parse_version t1 s1 = (Inr t2, s2)"
    and i: "import_to_nautobot env t2 s2 = (Inr t3, s3)"
    and a: "assign_to_device env t3 s3 = (Inr task', st1)"
    by blast
  from import_unique[OF i] obtain v sw where
    v: "parsed_version t2 = Some v" and t3: "t3 = t2\<lparr>nautobot_software := Some sw\<rparr>"
    and u: "filter (\<lambda>s. version s = v) (software (db s3)) = [sw]"
    and rels: "relationships (db s3) = relationships (db s2)"
    by blast
  from assign_success[OF a] obtain rel sw' where
    same: "task' = t3" and soft: "software (db st1) = software (db s3)"
    and rels': "relationships (db st1) = relationships (db s3)"
    and rel: "objects_get (\<lambda>r. label r = ''Software on Device'') (relationships (db s3)) = Inr rel"
    and sw': "nautobot_software t3 = Some sw'"
    and ex: "filter (same_relationship rel sw' (device t3)) (associations (db st1)) \<noteq> []"
    by blast
  define a1 where "a1 = snd (get_version env task st2)"
  have g2: "get_version env task st2 = (Inr t1, a1)"
    using g get_version_result[of env task st2 st] by (simp add: a1_def prod_eq_iff)
  have da1: "db a1 = db st1"
    using get_version_state[of env task st2] assms(2) by (simp add: a1_def)
  define a2 where "a2 = snd (parse_version t1 a1)"
  have p2: "parse_version t1 a1 = (Inr t2, a2)"
    using p parse_version_result[of t1 a1 s1] by (simp add: a2_def prod_eq_iff)
  have da2: "db a2 = db st1"
    using parse_version_state[of t1 a1] da1 by (simp add: a2_def)
  define a3 where "a3 = print_status ''info'' (SoftwareExists sw) a2"
  have "filter (\<lambda>s. version s = v) (software (db a2)) = [sw]"
    using u soft da2 by simp
  from import_reuse[OF v this, of env]
  have i2: "import_to_nautobot env t2 a2 = (Inr t3, a3)"
    by (simp add: t3 a3_def)
  have da3: "db a3 = db st1" by (simp add: a3_def da2)
  define a4 where "a4 = print_status ''info'' (RelationshipExists (device t3) sw') a3"
  have rel3: "objects_get (\<lambda>r. label r = ''Software on Device'') (relationships (db a3)) = Inr rel"
    using rel rels' da3 by simp
  have ex3: "filter (same_relationship rel sw' (device t3)) (associations (db a3)) \<noteq> []"
    using ex da3 by simp
  from assign_existing[OF rel3 sw' ex3, of env]
  have a2': "assign_to_device env t3 a3 = (Inr task', a4)"
    by (simp add: same a4_def)
  have "execute env task st2 = (Inr task', a4)"
    by (simp add: execute_def and_then_in_def g2 p2 i2 a2')
  moreover have "db a4 = db st1" by (simp add: a4_def da3)
  ultimately show ?thesis by blast
qed

lemma run_Nil: "run env [] = (\<lambda>st. (Inr (), st))"
  by (rule ext) simp

lemma run_single:
  "run env [dev] st =
     and_then_in (OnboardVersion env dev st) (\<lambda>task st1.
     and_then_in (execute env task st1) (\<lambda>finished st2. (Inr (), st2)))"
  by (simp add: run_Nil)

lemma run_twice:
  assumes "run env [dev] st = (Inr (), st1)"
  shows "\<exists>st2. run env [dev] st1 = (Inr (), st2) \<and> db st2 = db st1"
proof -
  from assms[unfolded run_single] obtain task s0 where
    o: "OnboardVersion env dev st = (Inr task, s0)"
    and r: "and_then_in (execute env task s0) (\<lambda>finished st2. (Inr (), st2)) = (Inr (), st1)"
    by (blast dest: and_then_in_Inr)
  from r obtain task' where e: "execute env task s0 = (Inr task', st1)"
    by (auto dest: and_then_in_Inr)
  define b0 where "b0 = snd (OnboardVersion env dev st1)"
  have o2: "OnboardVersion env dev st1 = (Inr task, b0)"
    using o OnboardVersion_result[of env dev st1 st] by (simp add: b0_def prod_eq_iff)
  have "db b0 = db st1"
    by (simp add: b0_def OnboardVersion_state)
  from execute_twice[OF e this] obtain st3 where
    e2: "execute env task b0 = (Inr task', st3)" and d: "db st3 = db st1"
    by blast
  have "run env [dev] st1 = (Inr (), st3)"
    by (simp add: and_then_in_def o2 e2)
  with d show ?thesis by blast
qed

lemma record_twice:
  assumes i: "import_to_nautobot env self st = (Inr s1, st1)"
    and a: "assign_to_device env s1 st1 = (Inr s2, st2)"
    and dev: "device self' = device self" and pv: "parsed_version self' = parsed_version self"
    and d: "db st3 = db st2"
  shows "\<exists>s3 st4 s4 st5.
           import_to_nautobot env' self' st3 = (Inr s3, st4) \<and>
           assign_to_device env' s3 st4 = (Inr s4, st5) \<and> db st5 = db st2"
proof -
  from import_unique[OF i] obtain v sw where
    v: "parsed_version self = Some v" and s1: "s1 = self\<lparr>nautobot_software := Some sw\<rparr>"
    and u: "filter (\<lambda>s. version s = v) (software (db st1)) = [sw]"
    by blast
  from assign_success[OF a] obtain rel sw' where
    soft: "software (db st2) = software (db st1)"
    and rels: "relationships (db st2) = relationships (db st1)"
    and rel: "objects_get (\<lambda>r. label r = ''Software on Device'') (relationships (db st1)) = Inr rel"
    and sw': "nautobot_software s1 = Some sw'"
    and ex: "filter (same_relationship rel sw' (device s1)) (associations (db st2)) \<noteq> []"
    by blast
  from s1 sw' have sw_eq: "sw' = sw" by simp
  define s3 where "s3 = self'\<lparr>nautobot_software := Some sw\<rparr>"
  define st4 where "st4 = print_status ''info'' (SoftwareExists sw) st3"
  have v': "parsed_version self' = Some v" using pv v by simp
  have "filter (\<lambda>s. version s = v) (software (db st3)) = [sw]"
    using u soft d by simp
  from import_reuse[OF v' this, of env']
  have i2: "import_to_nautobot env' self' st3 = (Inr s3, st4)"
    by (simp add: s3_def st4_def)
  have d4: "db st4 = db st2" by (simp add: st4_def d)
  have rel4: "objects_get (\<lambda>r. label r = ''Software on Device'') (relationships (db st4)) = Inr rel"
    using rel rels d4 by simp
  have sw3: "nautobot_software s3 = Some sw" by (simp add: s3_def)
  have "device s3 = device s1" using dev s1 by (simp add: s3_def)
  then have ex4: "filter (same_relationship rel sw (device s3)) (associations (db st4)) \<noteq> []"
    using ex d4 sw_eq by simp
  define st5 where "st5 = print_status ''info'' (RelationshipExists (device s3) sw) st4"
  from assign_existing[OF rel4 sw3 ex4, of env']
  have a2: "assign_to_device env' s3 st4 = (Inr s3, st5)"
    by (simp add: st5_def)
  have "db st5 = db st2" by (simp add: st5_def d4)
  with i2 a2 show ?thesis by blast
qed

lemma first_run_switch1: "run lab [switch1] start = (Inr (), first_run)"
  by code_simp

lemma second_run_switch1: "db (snd (run lab [switch1] first_run)) = recorded_db"
  by code_simp

lemma reuse_hypothesis:
  "parsed_version parsed1 = Some ''15.2(7)E3'' \<and>
   filter (\<lambda>s. version s = ''15.2(7)E3'') (software (db first_run)) \<noteq> [] \<and>
   import_to_nautobot lab parsed1 first_run =
     (Inr (parsed1\<lparr>nautobot_software := Some software1\<rparr>),
      print_status ''info'' (SoftwareExists software1) first_run)"
  by code_simp

lemma create_hypothesis:
  "assign_to_device lab (parsed1\<lparr>nautobot_software := Some software1\<rparr>) imported =
     (Inr (parsed1\<lparr>nautobot_software := Some software1\<rparr>),
      print_status ''info'' (CreatedRelationship switch1 software1) (imported\<lparr>db := recorded_db\<rparr>)) \<and>
   associations
     (db (print_status ''info'' (CreatedRelationship switch1 software1) (imported\<lparr>db := recorded_db\<rparr>))) \<noteq>
   associations (db imported)"
  by code_simp

lemma twice_hypothesis:
  "import_to_nautobot lab parsed1 start =
     (Inr (parsed1\<lparr>nautobot_software := Some software1\<rparr>),
      print_status ''info'' (CreatedSoftware software1) (start\<lparr>db := db imported\<rparr>)) \<and>
   assign_to_device lab (parsed1\<lparr>nautobot_software := Some software1\<rparr>)
     (print_status ''info'' (CreatedSoftware software1) (start\<lparr>db := db imported\<rparr>)) =
     (Inr (parsed1\<lparr>nautobot_software := Some software1\<rparr>),
      print_status ''info'' (CreatedRelationship switch1 software1)
        (print_status ''info'' (CreatedSoftware software1) (start\<lparr>db := recorded_db\<rparr>))) \<and>
   device parsed1 = device parsed1 \<and> parsed_version parsed1 = parsed_version parsed1 \<and>
   db first_run =
     db (print_status ''info'' (CreatedRelationship switch1 software1)
           (print_status ''info'' (CreatedSoftware software1) (start\<lparr>db := recorded_db\<rparr>)))"
  by code_simp

subsection \<open>C8\<close>

text \<open>
  C8. The recording step is an upsert. When a software row with the parsed version
  exists, \<^verbatim>\<open>import_to_nautobot\<close> leaves the database as it is, and the row it takes is one
  of the existing rows with that version. \<^verbatim>\<open>assign_to_device\<close> adds an association only
  when none links the relationship, the software and the device, and then adds exactly
  one that does. So a run for a device that has succeeded can be repeated: the second
  run succeeds and leaves the database of the first, with no second row and no second
  association; and so can the two recording steps, for any task with the same device and
  the same parsed version.
\<close>

theorem recording_is_an_upsert:
  "(parsed_version self = Some v \<and> filter (\<lambda>s. version s = v) (software (db st)) \<noteq> [] \<and>
    import_to_nautobot env self st = (r, st') \<longrightarrow> db st' = db st) \<and>
   (parsed_version self = Some v \<and> filter (\<lambda>s. version s = v) (software (db st)) \<noteq> [] \<and>
    import_to_nautobot env self st = (Inr self', st') \<longrightarrow>
      (\<exists>sw \<in> set (software (db st)). version sw = v \<and> nautobot_software self' = Some sw)) \<and>
   (assign_to_device env self st = (Inr self', st') \<and>
    associations (db st') \<noteq> associations (db st) \<longrightarrow>
      (\<exists>rel sw created.
         objects_get (\<lambda>r. label r = ''Software on Device'') (relationships (db st)) = Inr rel \<and>
         nautobot_software self = Some sw \<and>
         filter (same_relationship rel sw (device self)) (associations (db st)) = [] \<and>
         same_relationship rel sw (device self) created \<and>
         associations (db st') = associations (db st) @ [created])) \<and>
   (run env [dev] st = (Inr (), st1) \<longrightarrow>
      (\<exists>st2. run env [dev] st1 = (Inr (), st2) \<and> db st2 = db st1)) \<and>
   (import_to_nautobot env self st = (Inr s1, st1) \<and>
    assign_to_device env s1 st1 = (Inr s2, st2) \<and>
    device again = device self \<and> parsed_version again = parsed_version self \<and>
    db st3 = db st2 \<longrightarrow>
      (\<exists>s3 st4 s4 st5.
         import_to_nautobot env' again st3 = (Inr s3, st4) \<and>
         assign_to_device env' s3 st4 = (Inr s4, st5) \<and> db st5 = db st2))"
proof (intro conjI impI)
  show "db st' = db st"
    if "parsed_version self = Some v \<and> filter (\<lambda>s. version s = v) (software (db st)) \<noteq> [] \<and>
        import_to_nautobot env self st = (r, st')"
    using that import_existing_db[of self v st env r st'] by blast
  show "\<exists>sw \<in> set (software (db st)). version sw = v \<and> nautobot_software self' = Some sw"
    if "parsed_version self = Some v \<and> filter (\<lambda>s. version s = v) (software (db st)) \<noteq> [] \<and>
        import_to_nautobot env self st = (Inr self', st')"
    using that import_existing[of self v st env self' st'] by blast
  show "\<exists>rel sw created.
         objects_get (\<lambda>r. label r = ''Software on Device'') (relationships (db st)) = Inr rel \<and>
         nautobot_software self = Some sw \<and>
         filter (same_relationship rel sw (device self)) (associations (db st)) = [] \<and>
         same_relationship rel sw (device self) created \<and>
         associations (db st') = associations (db st) @ [created]"
    if "assign_to_device env self st = (Inr self', st') \<and>
        associations (db st') \<noteq> associations (db st)"
    using that assign_creates_only_when_absent[of env self st self' st'] by blast
  show "\<exists>st2. run env [dev] st1 = (Inr (), st2) \<and> db st2 = db st1"
    if "run env [dev] st = (Inr (), st1)"
    using that by (rule run_twice)
  show "\<exists>s3 st4 s4 st5.
         import_to_nautobot env' again st3 = (Inr s3, st4) \<and>
         assign_to_device env' s3 st4 = (Inr s4, st5) \<and> db st5 = db st2"
    if "import_to_nautobot env self st = (Inr s1, st1) \<and>
        assign_to_device env s1 st1 = (Inr s2, st2) \<and>
        device again = device self \<and> parsed_version again = parsed_version self \<and>
        db st3 = db st2"
    using that record_twice[of env self st s1 st1 s2 st2 again st3 env'] by blast
qed

theorem recording_is_an_upsert_witness:
  "(parsed_version parsed1 = Some ''15.2(7)E3'' \<and>
    filter (\<lambda>s. version s = ''15.2(7)E3'') (software (db first_run)) \<noteq> [] \<and>
    import_to_nautobot lab parsed1 first_run =
      (Inr (parsed1\<lparr>nautobot_software := Some software1\<rparr>),
       print_status ''info'' (SoftwareExists software1) first_run)) \<and>
   db (print_status ''info'' (SoftwareExists software1) first_run) = db first_run \<and>
   (\<exists>sw \<in> set (software (db first_run)).
      version sw = ''15.2(7)E3'' \<and>
      nautobot_software (parsed1\<lparr>nautobot_software := Some software1\<rparr>) = Some sw) \<and>
   (assign_to_device lab (parsed1\<lparr>nautobot_software := Some software1\<rparr>) imported =
     (Inr (parsed1\<lparr>nautobot_software := Some software1\<rparr>),
      print_status ''info'' (CreatedRelationship switch1 software1) (imported\<lparr>db := recorded_db\<rparr>)) \<and>
    associations
     (db (print_status ''info'' (CreatedRelationship switch1 software1) (imported\<lparr>db := recorded_db\<rparr>))) \<noteq>
    associations (db imported)) \<and>
   (\<exists>rel sw created.
      objects_get (\<lambda>r. label r = ''Software on Device'') (relationships (db imported)) = Inr rel \<and>
      nautobot_software (parsed1\<lparr>nautobot_software := Some software1\<rparr>) = Some sw \<and>
      filter (same_relationship rel sw (device (parsed1\<lparr>nautobot_software := Some software1\<rparr>)))
        (associations (db imported)) = [] \<and>
      same_relationship rel sw (device (parsed1\<lparr>nautobot_software := Some software1\<rparr>)) created \<and>
      associations
        (db (print_status ''info'' (CreatedRelationship switch1 software1)
               (imported\<lparr>db := recorded_db\<rparr>))) =
        associations (db imported) @ [created]) \<and>
   run lab [switch1] start = (Inr (), first_run) \<and>
   (\<exists>st2. run lab [switch1] first_run = (Inr (), st2) \<and> db st2 = db first_run) \<and>
   (import_to_nautobot lab parsed1 start =
     (Inr (parsed1\<lparr>nautobot_software := Some software1\<rparr>),
      print_status ''info'' (CreatedSoftware software1) (start\<lparr>db := db imported\<rparr>)) \<and>
    assign_to_device lab (parsed1\<lparr>nautobot_software := Some software1\<rparr>)
      (print_status ''info'' (CreatedSoftware software1) (start\<lparr>db := db imported\<rparr>)) =
      (Inr (parsed1\<lparr>nautobot_software := Some software1\<rparr>),
       print_status ''info'' (CreatedRelationship switch1 software1)
         (print_status ''info'' (CreatedSoftware software1) (start\<lparr>db := recorded_db\<rparr>))) \<and>
    device parsed1 = device parsed1 \<and> parsed_version parsed1 = parsed_version parsed1 \<and>
    db first_run =
      db (print_status ''info'' (CreatedRelationship switch1 software1)
            (print_status ''info'' (CreatedSoftware software1) (start\<lparr>db := recorded_db\<rparr>)))) \<and>
   (\<exists>s3 st4 s4 st5.
      import_to_nautobot lab parsed1 first_run = (Inr s3, st4) \<and>
      assign_to_device lab s3 st4 = (Inr s4, st5) \<and>
      db st5 =
        db (print_status ''info'' (CreatedRelationship switch1 software1)
              (print_status ''info'' (CreatedSoftware software1) (start\<lparr>db := recorded_db\<rparr>))))"
proof -
  note t = recording_is_an_upsert
    [where self = parsed1 and v = "''15.2(7)E3''" and st = first_run and env = lab
       and r = "Inr (parsed1\<lparr>nautobot_software := Some software1\<rparr>)"
       and self' = "parsed1\<lparr>nautobot_software := Some software1\<rparr>"
       and st' = "print_status ''info'' (SoftwareExists software1) first_run"]
  from t[THEN conjunct1] reuse_hypothesis
  have a: "db (print_status ''info'' (SoftwareExists software1) first_run) = db first_run"
    by (rule mp)
  from t[THEN conjunct2, THEN conjunct1] reuse_hypothesis
  have b: "\<exists>sw \<in> set (software (db first_run)).
      version sw = ''15.2(7)E3'' \<and>
      nautobot_software (parsed1\<lparr>nautobot_software := Some software1\<rparr>) = Some sw"
    by (rule mp)
  note s = recording_is_an_upsert
    [where self = "parsed1\<lparr>nautobot_software := Some software1\<rparr>" and st = imported and env = lab
       and self' = "parsed1\<lparr>nautobot_software := Some software1\<rparr>"
       and st' = "print_status ''info'' (CreatedRelationship switch1 software1)
                    (imported\<lparr>db := recorded_db\<rparr>)"]
  from s[THEN conjunct2, THEN conjunct2, THEN conjunct1] create_hypothesis
  have c: "\<exists>rel sw created.
      objects_get (\<lambda>r. label r = ''Software on Device'') (relationships (db imported)) = Inr rel \<and>
      nautobot_software (parsed1\<lparr>nautobot_software := Some software1\<rparr>) = Some sw \<and>
      filter (same_relationship rel sw (device (parsed1\<lparr>nautobot_software := Some software1\<rparr>)))
        (associations (db imported)) = [] \<and>
      same_relationship rel sw (device (parsed1\<lparr>nautobot_software := Some software1\<rparr>)) created \<and>
      associations
        (db (print_status ''info'' (CreatedRelationship switch1 software1)
               (imported\<lparr>db := recorded_db\<rparr>))) =
        associations (db imported) @ [created]"
    by (rule mp)
  note u = recording_is_an_upsert
    [where env = lab and st = start and dev = switch1 and ?st1.0 = first_run]
  from u[THEN conjunct2, THEN conjunct2, THEN conjunct2, THEN conjunct1] first_run_switch1
  have d: "\<exists>st2. run lab [switch1] first_run = (Inr (), st2) \<and> db st2 = db first_run"
    by (rule mp)
  note r = recording_is_an_upsert
    [where env = lab and self = parsed1 and st = start
       and ?s1.0 = "parsed1\<lparr>nautobot_software := Some software1\<rparr>"
       and ?st1.0 = "print_status ''info'' (CreatedSoftware software1) (start\<lparr>db := db imported\<rparr>)"
       and ?s2.0 = "parsed1\<lparr>nautobot_software := Some software1\<rparr>"
       and ?st2.0 = "print_status ''info'' (CreatedRelationship switch1 software1)
         (print_status ''info'' (CreatedSoftware software1) (start\<lparr>db := recorded_db\<rparr>))"
       and again = parsed1 and ?st3.0 = first_run and env' = lab]
  from r[THEN conjunct2, THEN conjunct2, THEN conjunct2, THEN conjunct2] twice_hypothesis
  have e: "\<exists>s3 st4 s4 st5.
      import_to_nautobot lab parsed1 first_run = (Inr s3, st4) \<and>
      assign_to_device lab s3 st4 = (Inr s4, st5) \<and>
      db st5 =
        db (print_status ''info'' (CreatedRelationship switch1 software1)
              (print_status ''info'' (CreatedSoftware software1) (start\<lparr>db := recorded_db\<rparr>)))"
    by (rule mp)
  from reuse_hypothesis a b create_hypothesis c first_run_switch1 d twice_hypothesis e
  show ?thesis
    by (elim conjE, intro conjI)
qed

subsection \<open>The loop over the devices\<close>

lemma run_append:
  "run env (pre @ rest) st = and_then_in (run env pre st) (\<lambda>u st1. run env rest st1)"
proof (induction pre arbitrary: st)
  case Nil
  show ?case by (simp add: and_then_in_def)
next
  case (Cons dev pre)
  show ?case
    by (simp add: Cons.IH and_then_in_def split: prod.splits sum.splits)
qed

lemma run_Cons:
  "run env (dev # rest) st = and_then_in (run env [dev] st) (\<lambda>u st1. run env rest st1)"
  using run_append[of env "[dev]" rest st] by simp

lemma run_aborts:
  assumes "run env pre st = (Inr (), st1)" and "run env [dev] st1 = (Inl e, st2)"
  shows "run env (pre @ dev # rest) st = (Inl e, st2)"
proof -
  have "run env (dev # rest) st1 = and_then_in (run env [dev] st1) (\<lambda>u st1. run env rest st1)"
    by (rule run_Cons)
  also have "\<dots> = (Inl e, st2)"
    unfolding assms(2) by (simp add: and_then_in_def)
  finally have "run env (dev # rest) st1 = (Inl e, st2)" .
  then show ?thesis
    unfolding run_append[of env pre "dev # rest" st] assms(1) by (simp add: and_then_in_def)
qed

lemma unsupported_raises:
  assumes "platform dev = Some plat" and "network_driver plat \<notin> set supported_drivers"
  shows "run env [dev] st =
           (Inl (Exception (''Device '' @ device_name dev @ '' with platform '' @
                            network_driver plat @ '' is not supported'')),
            print_status ''info'' (SupportedPlatforms supported_drivers) st)"
  using assms by (simp add: OnboardVersion_def Let_def and_then_in_def)

lemma unreachable_raises:
  assumes "OnboardVersion env dev st = (Inr task, st1)"
    and "ping env (ip (self_device_info task)) \<noteq> 0"
  shows "fst (run env [dev] st) =
           Inl (Exception (''Device with IP '' @ ip (self_device_info task) @ '' is unreachable''))"
  using assms by (simp add: and_then_in_def execute_def get_version_def Let_def)

lemma no_match_raises:
  assumes "OnboardVersion env dev st = (Inr task, st1)"
    and "get_version env task st1 = (Inr task', st2)"
    and "raw_version task' = Some out" and "map_of patterns (self_platform task') = Some lit"
    and "re_search lit out = None"
  shows "fst (run env [dev] st) =
           Inl (Exception (''Could not parse, pattern not found in the input string: '' @
                           pattern_source lit))"
  using assms by (simp add: and_then_in_def execute_def parse_version_def)

lemma unreachable_raises':
  assumes "fst (OnboardVersion env dev st) = Inr task"
    and "ping env (ip (self_device_info task)) \<noteq> 0"
  shows "fst (run env [dev] st) =
           Inl (Exception (''Device with IP '' @ ip (self_device_info task) @ '' is unreachable''))"
  using unreachable_raises[of env dev st task "snd (OnboardVersion env dev st)"] assms
  by (simp add: prod_eq_iff)

lemma no_match_raises':
  assumes "fst (OnboardVersion env dev st) = Inr task"
    and "fst (get_version env task (snd (OnboardVersion env dev st))) = Inr task'"
    and "raw_version task' = Some out" and "map_of patterns (self_platform task') = Some lit"
    and "re_search lit out = None"
  shows "fst (run env [dev] st) =
           Inl (Exception (''Could not parse, pattern not found in the input string: '' @
                           pattern_source lit))"
  using no_match_raises[of env dev st task "snd (OnboardVersion env dev st)" task'
          "snd (get_version env task (snd (OnboardVersion env dev st)))" out lit] assms
  by (simp add: prod_eq_iff)

lemma abort_hypothesis:
  "run lab [switch1] start = (Inr (), first_run) \<and>
   run lab [switch2] first_run =
     (Inl (Exception ''Device sw2 with platform arista_eos is not supported''),
      print_status ''info'' (SupportedPlatforms supported_drivers) first_run)"
  by code_simp

lemma unsupported_hypothesis:
  "platform switch2 = Some eos \<and> network_driver eos \<notin> set supported_drivers"
  by code_simp

lemma unreachable_hypothesis:
  "fst (OnboardVersion lab switch9 start) = Inr task9 \<and>
   ping lab (ip (self_device_info task9)) \<noteq> 0"
  by code_simp

lemma no_match_hypothesis:
  "fst (OnboardVersion lab switch3 start) = Inr task3 \<and>
   fst (get_version lab task3 (snd (OnboardVersion lab switch3 start))) =
     Inr (task3\<lparr>raw_version := Some ''% Invalid input''\<rparr>) \<and>
   raw_version (task3\<lparr>raw_version := Some ''% Invalid input''\<rparr>) = Some ''% Invalid input'' \<and>
   map_of patterns (self_platform (task3\<lparr>raw_version := Some ''% Invalid input''\<rparr>)) =
     Some ''Version '' \<and>
   re_search ''Version '' ''% Invalid input'' = None"
  by code_simp

subsection \<open>C10\<close>

text \<open>
  C10. \<^verbatim>\<open>run\<close> goes through the selected devices one after another in the order of
  the selection: the run of a list is the run of its front followed, in the state the
  front left, by the run of the rest. A device that fails ends the run with its
  exception in the state reached at that point, whatever devices follow it. A platform
  outside the supported drivers, an address that does not answer the ping, and an output
  without a match of the platform's pattern each raise such an exception.
\<close>

theorem failing_device_aborts_run:
  "run env (pre @ rest) st = and_then_in (run env pre st) (\<lambda>u st1. run env rest st1) \<and>
   (run env pre st = (Inr (), st1) \<and> run env [dev] st1 = (Inl e, st2) \<longrightarrow>
      run env (pre @ dev # rest) st = (Inl e, st2)) \<and>
   (platform dev = Some plat \<and> network_driver plat \<notin> set supported_drivers \<longrightarrow>
      run env [dev] st =
        (Inl (Exception (''Device '' @ device_name dev @ '' with platform '' @
                         network_driver plat @ '' is not supported'')),
         print_status ''info'' (SupportedPlatforms supported_drivers) st)) \<and>
   (fst (OnboardVersion env dev st) = Inr task \<and> ping env (ip (self_device_info task)) \<noteq> 0 \<longrightarrow>
      fst (run env [dev] st) =
        Inl (Exception (''Device with IP '' @ ip (self_device_info task) @ '' is unreachable''))) \<and>
   (fst (OnboardVersion env dev st) = Inr task \<and>
    fst (get_version env task (snd (OnboardVersion env dev st))) = Inr task' \<and>
    raw_version task' = Some out \<and> map_of patterns (self_platform task') = Some lit \<and>
    re_search lit out = None \<longrightarrow>
      fst (run env [dev] st) =
        Inl (Exception (''Could not parse, pattern not found in the input string: '' @
                        pattern_source lit)))"
proof (intro conjI impI)
  show "run env (pre @ rest) st = and_then_in (run env pre st) (\<lambda>u st1. run env rest st1)"
    by (rule run_append)
  show "run env (pre @ dev # rest) st = (Inl e, st2)"
    if "run env pre st = (Inr (), st1) \<and> run env [dev] st1 = (Inl e, st2)"
    using that run_aborts[of env pre st st1 dev e st2 rest] by blast
  show "run env [dev] st =
        (Inl (Exception (''Device '' @ device_name dev @ '' with platform '' @
                         network_driver plat @ '' is not supported'')),
         print_status ''info'' (SupportedPlatforms supported_drivers) st)"
    if "platform dev = Some plat \<and> network_driver plat \<notin> set supported_drivers"
    using that unsupported_raises[of dev plat env st] by blast
  show "fst (run env [dev] st) =
        Inl (Exception (''Device with IP '' @ ip (self_device_info task) @ '' is unreachable''))"
    if "fst (OnboardVersion env dev st) = Inr task \<and> ping env (ip (self_device_info task)) \<noteq> 0"
    using that unreachable_raises'[of env dev st task] by blast
  show "fst (run env [dev] st) =
        Inl (Exception (''Could not parse, pattern not found in the input string: '' @
                        pattern_source lit))"
    if "fst (OnboardVersion env dev st) = Inr task \<and>
        fst (get_version env task (snd (OnboardVersion env dev st))) = Inr task' \<and>
        raw_version task' = Some out \<and> map_of patterns (self_platform task') = Some lit \<and>
        re_search lit out = None"
    using that no_match_raises'[of env dev st task task' out lit] by blast
qed

theorem failing_device_aborts_run_witness:
  "(run lab [switch1] start = (Inr (), first_run) \<and>
    run lab [switch2] first_run =
      (Inl (Exception ''Device sw2 with platform arista_eos is not supported''),
       print_status ''info'' (SupportedPlatforms supported_drivers) first_run)) \<and>
   run lab ([switch1] @ switch2 # [switch3, switch9]) start =
     (Inl (Exception ''Device sw2 with platform arista_eos is not supported''),
      print_status ''info'' (SupportedPlatforms supported_drivers) first_run) \<and>
   (platform switch2 = Some eos \<and> network_driver eos \<notin> set supported_drivers) \<and>
   (fst (OnboardVersion lab switch9 start) = Inr task9 \<and>
    ping lab (ip (self_device_info task9)) \<noteq> 0) \<and>
   fst (run lab [switch9] start) =
     Inl (Exception (''Device with IP '' @ ip (self_device_info task9) @ '' is unreachable'')) \<and>
   (fst (OnboardVersion lab switch3 start) = Inr task3 \<and>
    fst (get_version lab task3 (snd (OnboardVersion lab switch3 start))) =
      Inr (task3\<lparr>raw_version := Some ''% Invalid input''\<rparr>) \<and>
    raw_version (task3\<lparr>raw_version := Some ''% Invalid input''\<rparr>) = Some ''% Invalid input'' \<and>
    map_of patterns (self_platform (task3\<lparr>raw_version := Some ''% Invalid input''\<rparr>)) =
      Some ''Version '' \<and>
    re_search ''Version '' ''% Invalid input'' = None) \<and>
   fst (run lab [switch3] start) =
     Inl (Exception (''Could not parse, pattern not found in the input string: '' @
                     pattern_source ''Version ''))"
proof -
  note t = failing_device_aborts_run
    [where env = lab and pre = "[switch1]" and st = start and ?st1.0 = first_run
       and dev = switch2 and e = "Exception ''Device sw2 with platform arista_eos is not supported''"
       and ?st2.0 = "print_status ''info'' (SupportedPlatforms supported_drivers) first_run"
       and rest = "[switch3, switch9]"]
  from t[THEN conjunct2, THEN conjunct1] abort_hypothesis
  have a: "run lab ([switch1] @ switch2 # [switch3, switch9]) start =
     (Inl (Exception ''Device sw2 with platform arista_eos is not supported''),
      print_status ''info'' (SupportedPlatforms supported_drivers) first_run)"
    by (rule mp)
  note u = failing_device_aborts_run
    [where env = lab and st = start and dev = switch9 and task = task9]
  from u[THEN conjunct2, THEN conjunct2, THEN conjunct2, THEN conjunct1] unreachable_hypothesis
  have b: "fst (run lab [switch9] start) =
     Inl (Exception (''Device with IP '' @ ip (self_device_info task9) @ '' is unreachable''))"
    by (rule mp)
  note v = failing_device_aborts_run
    [where env = lab and st = start and dev = switch3 and task = task3
       and task' = "task3\<lparr>raw_version := Some ''% Invalid input''\<rparr>"
       and out = "''% Invalid input''" and lit = "''Version ''"]
  from v[THEN conjunct2, THEN conjunct2, THEN conjunct2, THEN conjunct2] no_match_hypothesis
  have c: "fst (run lab [switch3] start) =
     Inl (Exception (''Could not parse, pattern not found in the input string: '' @
                     pattern_source ''Version ''))"
    by (rule mp)
  from abort_hypothesis a unsupported_hypothesis unreachable_hypothesis b no_match_hypothesis c
  show ?thesis by (elim conjE, intro conjI)
qed

end
